theory Spec2Isabelle
  imports Main
begin

section \<open>Satellite and Capsule upgrade tasks\<close>

text \<open>
  A shallow embedding of \<^verbatim>\<open>automation_tools/satellite6/upgrade/__init__.py\<close>: the three
  Fabric tasks \<^verbatim>\<open>satellite6_upgrade\<close> (the hub workflow),
  \<^verbatim>\<open>satellite6_capsule_upgrade\<close> (the subordinate workflow) and
  \<^verbatim>\<open>product_upgrade\<close> (the top-level orchestration).

  The tasks are imperative: they read the process environment, read and write Fabric's
  shared \<^verbatim>\<open>env\<close> dictionary, print, and issue operations against remote hosts.  The
  model threads a state through every statement and returns, next to the state, either
  the statement's value or the exception that unwound it.
\<close>

subsection \<open>Python values\<close>

text \<open>A value that is either \<^verbatim>\<open>None\<close> or a \<^verbatim>\<open>str\<close>.\<close>

type_synonym pystr = "string option"

text \<open>Truthiness, as \<^verbatim>\<open>if x\<close> and \<^verbatim>\<open>if not x\<close> test it: \<^verbatim>\<open>None\<close> and the empty string
  are false.\<close>

fun truthy :: "pystr \<Rightarrow> bool" where
  "truthy None = False"
| "truthy (Some v) = (v \<noteq> [])"

text \<open>What \<^verbatim>\<open>'{0}'.format(x)\<close> renders: \<^verbatim>\<open>None\<close> is rendered as the text \<^verbatim>\<open>None\<close>.\<close>

fun fmt :: "pystr \<Rightarrow> string" where
  "fmt None = ''None''"
| "fmt (Some v) = v"

subsection \<open>Operations, events and exceptions\<close>

text \<open>
  Every call that leaves the process is an operation.  \<open>Run\<close> and \<open>Put\<close> are Fabric's
  \<^verbatim>\<open>run(cmd, warn_only=...)\<close> and \<^verbatim>\<open>put(local_path=..., remote_path=...)\<close> (\<open>Put\<close> carries
  the content of the buffer and the remote path).  The other constructors are the
  helpers the module imports from the rest of the package (\<^verbatim>\<open>tasks\<close>, \<^verbatim>\<open>tools\<close>,
  \<^verbatim>\<open>automation_tools\<close>); their bodies are not part of this module, so a call is recorded
  with its arguments and its outcome is left to the world.
\<close>

datatype op =
    Run string bool
  | Put string string
  | SetYumDebugLevel
  | UpdatePackages bool
  | Reboot nat
  | DistroInfo
  | EnableRepos string
  | DisableRepos string bool
  | GenerateCapsuleCerts pystr bool
  | DeleteRhevmInstance string
  | CreateRhevmInstance string pystr
  | HostPings pystr
  | Subscribe
  | CopySshKey pystr pystr
  | SyncCapsuleToolsReposToUpgrade
  | ForemanDebug string

text \<open>An event is an operation together with the host (\<^verbatim>\<open>env.host_string\<close>) it was
  issued for.\<close>

type_synonym event = "pystr \<times> op"

text \<open>
  \<open>SysExit n\<close> is \<^verbatim>\<open>sys.exit(n)\<close>.  \<open>FabricAbort\<close> is what unwinds the task when an
  operation fails and the failure is not tolerated: Fabric's \<^verbatim>\<open>abort\<close> for \<^verbatim>\<open>run\<close> and
  \<^verbatim>\<open>put\<close>, the helper's own exception for a helper.  \<open>NameError v\<close> is the read of a
  local variable \<open>v\<close> that no executed statement has assigned.
\<close>

datatype exc = SysExit nat | FabricAbort | NameError string

text \<open>The status the process ends with when the exception reaches the top.\<close>

fun exit_status :: "exc \<Rightarrow> nat" where
  "exit_status (SysExit n) = n"
| "exit_status FabricAbort = 1"
| "exit_status (NameError v) = 1"

text \<open>Only \<^verbatim>\<open>run(..., warn_only=True)\<close> tolerates the failure of its command.\<close>

fun tolerant :: "op \<Rightarrow> bool" where
  "tolerant (Run c warn_only) = warn_only"
| "tolerant other = False"

subsection \<open>World and state\<close>

text \<open>
  The world is everything the tasks read and do not control: \<open>environ\<close> is
  \<^verbatim>\<open>os.environ\<close>; \<open>fails k\<close> tells whether the operation issued as the \<open>k\<close>-th of the
  process fails (for \<^verbatim>\<open>run\<close>: the command returns non-zero; for \<^verbatim>\<open>put\<close>: the transfer
  fails; for a helper: the helper raises); \<open>distro_major h\<close> is the rendering of
  \<^verbatim>\<open>distro_info()[1]\<close> on host \<open>h\<close>; \<open>ctime k\<close> is what \<^verbatim>\<open>time.ctime()\<close> returns once \<open>k\<close>
  operations have been issued.
\<close>

record world =
  environ :: "string \<rightharpoonup> string"
  fails :: "nat \<Rightarrow> bool"
  distro_major :: "pystr \<Rightarrow> string"
  ctime :: "nat \<Rightarrow> string"

text \<open>
  The state is what the tasks change: \<open>trace\<close> lists the events issued so far, oldest
  first; \<open>stdout\<close> the lines printed; \<open>env\<close> is Fabric's shared \<^verbatim>\<open>env\<close> dictionary,
  restricted to the keys the module uses.
\<close>

record state =
  trace :: "event list"
  stdout :: "string list"
  env :: "string \<rightharpoonup> pystr"

type_synonym 'a M = "state \<Rightarrow> (exc + 'a) \<times> state"

definition ret :: "'a \<Rightarrow> 'a M" where
  "ret x = (\<lambda>s. (Inr x, s))"

definition raiseM :: "exc \<Rightarrow> 'a M" where
  "raiseM e = (\<lambda>s. (Inl e, s))"

definition bnd :: "'a M \<Rightarrow> ('a \<Rightarrow> 'b M) \<Rightarrow> 'b M" where
  "bnd m f = (\<lambda>s. case m s of (Inl e, s') \<Rightarrow> (Inl e, s') | (Inr x, s') \<Rightarrow> f x s')"

definition thn :: "unit M \<Rightarrow> 'b M \<Rightarrow> 'b M" where
  "thn m n = bnd m (\<lambda>_. n)"

text \<open>A block of statements, run in order.\<close>

fun seqM :: "unit M list \<Rightarrow> unit M" where
  "seqM [] = ret ()"
| "seqM (m # ms) = thn m (seqM ms)"

text \<open>\<^verbatim>\<open>if b: m\<close> with no \<^verbatim>\<open>else\<close>.\<close>

definition whenM :: "bool \<Rightarrow> unit M \<Rightarrow> unit M" where
  "whenM b m = (if b then m else ret ())"

subsection \<open>Primitives\<close>

definition sys_exit :: "nat \<Rightarrow> 'a M" where
  "sys_exit n = raiseM (SysExit n)"

definition py_print :: "string \<Rightarrow> unit M" where
  "py_print msg = (\<lambda>s. (Inr (), s\<lparr>stdout := stdout s @ [msg]\<rparr>))"

text \<open>\<^verbatim>\<open>print('... {0}'.format(time.ctime()))\<close>.\<close>

definition print_ctime :: "world \<Rightarrow> string \<Rightarrow> unit M" where
  "print_ctime w prefix =
     (\<lambda>s. (Inr (), s\<lparr>stdout := stdout s @ [prefix @ ctime w (length (trace s))]\<rparr>))"

text \<open>\<^verbatim>\<open>os.environ.get(k)\<close> is \<open>environ w k\<close>; with a default:\<close>

definition environ_get :: "world \<Rightarrow> string \<Rightarrow> string \<Rightarrow> string" where
  "environ_get w k d = (case environ w k of None \<Rightarrow> d | Some v \<Rightarrow> v)"

text \<open>\<^verbatim>\<open>env.get(k)\<close>: \<^verbatim>\<open>None\<close> when the key is unset.\<close>

definition env_get :: "(string \<rightharpoonup> pystr) \<Rightarrow> string \<Rightarrow> pystr" where
  "env_get e k = (case e k of None \<Rightarrow> None | Some v \<Rightarrow> v)"

text \<open>\<^verbatim>\<open>env[k] = v\<close>.\<close>

definition env_set :: "string \<Rightarrow> pystr \<Rightarrow> unit M" where
  "env_set k v = (\<lambda>s. (Inr (), s\<lparr>env := (env s)(k \<mapsto> v)\<rparr>))"

text \<open>
  Issuing an operation for a host: the event is recorded, and the world decides whether
  it fails.  A failure that is not tolerated unwinds the task; no surrounding code
  catches it, since the module has no \<^verbatim>\<open>try\<close>.
\<close>

definition issue :: "world \<Rightarrow> pystr \<Rightarrow> op \<Rightarrow> unit M" where
  "issue w h x =
     (\<lambda>s. let s' = s\<lparr>trace := trace s @ [(h, x)]\<rparr>
          in if fails w (length (trace s)) \<and> \<not> tolerant x
             then (Inl FabricAbort, s') else (Inr (), s'))"

text \<open>
  The calls of the module, each for the host of the enclosing
  \<^verbatim>\<open>execute(..., host=h)\<close> (the task's own host when there is none).
\<close>

definition run :: "world \<Rightarrow> pystr \<Rightarrow> string \<Rightarrow> bool \<Rightarrow> unit M" where
  "run w h cmd warn_only = issue w h (Run cmd warn_only)"

definition put :: "world \<Rightarrow> pystr \<Rightarrow> string \<Rightarrow> string \<Rightarrow> unit M" where
  "put w h local_path remote_path = issue w h (Put local_path remote_path)"

definition set_yum_debug_level :: "world \<Rightarrow> pystr \<Rightarrow> unit M" where
  "set_yum_debug_level w h = issue w h SetYumDebugLevel"

definition update_packages :: "world \<Rightarrow> pystr \<Rightarrow> bool \<Rightarrow> unit M" where
  "update_packages w h quiet = issue w h (UpdatePackages quiet)"

definition reboot :: "world \<Rightarrow> pystr \<Rightarrow> nat \<Rightarrow> unit M" where
  "reboot w h n = issue w h (Reboot n)"

definition distro_info_major :: "world \<Rightarrow> pystr \<Rightarrow> string M" where
  "distro_info_major w h = bnd (issue w h DistroInfo) (\<lambda>_. ret (distro_major w h))"

definition enable_repos :: "world \<Rightarrow> pystr \<Rightarrow> string \<Rightarrow> unit M" where
  "enable_repos w h repo = issue w h (EnableRepos repo)"

definition disable_repos :: "world \<Rightarrow> pystr \<Rightarrow> string \<Rightarrow> bool \<Rightarrow> unit M" where
  "disable_repos w h repo silent = issue w h (DisableRepos repo silent)"

definition generate_capsule_certs :: "world \<Rightarrow> pystr \<Rightarrow> pystr \<Rightarrow> bool \<Rightarrow> unit M" where
  "generate_capsule_certs w h capsule force = issue w h (GenerateCapsuleCerts capsule force)"

definition delete_rhevm_instance :: "world \<Rightarrow> pystr \<Rightarrow> string \<Rightarrow> unit M" where
  "delete_rhevm_instance w h name = issue w h (DeleteRhevmInstance name)"

definition create_rhevm_instance :: "world \<Rightarrow> pystr \<Rightarrow> string \<Rightarrow> pystr \<Rightarrow> unit M" where
  "create_rhevm_instance w h name img = issue w h (CreateRhevmInstance name img)"

definition host_pings :: "world \<Rightarrow> pystr \<Rightarrow> pystr \<Rightarrow> unit M" where
  "host_pings w h target = issue w h (HostPings target)"

definition subscribe :: "world \<Rightarrow> pystr \<Rightarrow> unit M" where
  "subscribe w h = issue w h Subscribe"

definition copy_ssh_key :: "world \<Rightarrow> pystr \<Rightarrow> pystr \<Rightarrow> pystr \<Rightarrow> unit M" where
  "copy_ssh_key w h from_host to_host = issue w h (CopySshKey from_host to_host)"

definition sync_capsule_tools_repos_to_upgrade :: "world \<Rightarrow> pystr \<Rightarrow> unit M" where
  "sync_capsule_tools_repos_to_upgrade w h = issue w h SyncCapsuleToolsReposToUpgrade"

definition foreman_debug :: "world \<Rightarrow> pystr \<Rightarrow> string \<Rightarrow> unit M" where
  "foreman_debug w h name = issue w h (ForemanDebug name)"

subsection \<open>The hub workflow\<close>

text \<open>The repository file built in the \<^verbatim>\<open>StringIO\<close> buffer, line by line.\<close>

definition satellite_repo :: "pystr \<Rightarrow> string" where
  "satellite_repo base_url =
     ''[sat6]'' @ [CHR 0x0A] @
     ''name=satellite 6'' @ [CHR 0x0A] @
     ''baseurl='' @ fmt base_url @ [CHR 0x0A] @
     ''enabled=1'' @ [CHR 0x0A] @
     ''gpgcheck=0'' @ [CHR 0x0A]"

text \<open>
  \<^verbatim>\<open>satellite6_upgrade(admin_password=None)\<close>, run for host \<open>host\<close>.
\<close>

definition satellite6_upgrade :: "world \<Rightarrow> pystr \<Rightarrow> pystr \<Rightarrow> unit M" where
  "satellite6_upgrade w host admin_password0 =
    (let to_version = environ w ''TO_VERSION'' in
     if to_version \<notin> set [Some ''6.1'', Some ''6.2''] then
       thn (py_print
             ''Wrong Satellite Version Provided to upgrade to. Provide one of 6.1, 6.2'')
           (sys_exit 1)
     else
     let admin_password =
           (if admin_password0 = None
            then Some (environ_get w ''ADMIN_PASSWORD'' ''changeme'')
            else admin_password0) in
     seqM [
       set_yum_debug_level w host,
       run w host ''rm -rf /etc/yum.repos.d/rhel-{optional,released}.repo'' False,
       py_print ''Wait till Packages update ... '',
       update_packages w host True,
       whenM (truthy (environ w ''RHEV_SATELLITE'')) (reboot w host 120),
       bnd (distro_info_major w host) (\<lambda>major_ver.
       let base_url = environ w ''BASE_URL'' in
       seqM [
         disable_repos w host ''*'' True,
         enable_repos w host (''rhel-'' @ major_ver @ ''-server-rpms''),
         enable_repos w host (''rhel-server-rhscl-'' @ major_ver @ ''-rpms''),
         (if base_url = None then
            enable_repos w host
              (''rhel-'' @ major_ver @ ''-server-satellite-'' @ fmt to_version @ ''-rpms'')
          else
            put w host (satellite_repo base_url) ''/etc/yum.repos.d/sat6.repo''),
         run w host ''katello-service stop'' False,
         whenM (to_version = Some ''6.1'') (run w host ''service-wait mongod start'' False),
         run w host ''yum clean all'' True,
         py_print ''Wait till packages update ... '',
         print_ctime w ''YUM UPDATE started at: '',
         update_packages w host False,
         print_ctime w ''YUM UPDATE finished at: '',
         whenM (truthy (environ w ''RHEV_SATELLITE'')) (reboot w host 120),
         run w host ''katello-service stop'' False,
         whenM (to_version = Some ''6.1'') (run w host ''service-wait mongod start'' False),
         print_ctime w ''SATELLITE UPGRADE started at: '',
         (if to_version = Some ''6.1'' then
            run w host ''katello-installer --upgrade'' False
          else
            run w host ''satellite-installer --scenario satellite --upgrade'' False),
         print_ctime w ''SATELLITE UPGRADE finished at: '',
         run w host (''hammer -u admin -p '' @ fmt admin_password @ '' ping'') True,
         run w host ''katello-service status'' True
       ])
     ])"

subsection \<open>The subordinate workflow\<close>

text \<open>\<^verbatim>\<open>env.get(k)\<close> as a statement.\<close>

definition env_getM :: "string \<Rightarrow> pystr M" where
  "env_getM k = (\<lambda>s. (Inr (env_get (env s) k), s))"

definition stop_services_cmd :: string where
  "stop_services_cmd =
     ''for i in qpidd pulp_workers pulp_celerybeat '' @
     ''pulp_resource_manager httpd; do service $i stop; done''"

definition capsule_repo :: "string \<Rightarrow> pystr \<Rightarrow> string" where
  "capsule_repo major_ver version =
     ''rhel-'' @ major_ver @ ''-server-satellite-capsule-'' @ fmt version @ ''-rpms''"

definition scp_certs_cmd :: "pystr \<Rightarrow> string" where
  "scp_certs_cmd cap_host =
     ''scp -o '' @ [CHR 0x27] @ ''StrictHostKeyChecking no'' @ [CHR 0x27] @ '' '' @
     fmt cap_host @ ''-certs.tar '' @ ''root@'' @ fmt cap_host @ '':/home/''"

text \<open>
  \<^verbatim>\<open>satellite6_capsule_upgrade(admin_password=None)\<close>, run for host \<open>host\<close>.  The
  two \<^verbatim>\<open>execute(..., host=sat_host)\<close> calls issue their operation for \<open>sat_host\<close>.
\<close>

definition satellite6_capsule_upgrade :: "world \<Rightarrow> pystr \<Rightarrow> pystr \<Rightarrow> unit M" where
  "satellite6_capsule_upgrade w host admin_password0 =
    bnd (env_getM ''satellite_host'') (\<lambda>sat_host.
    bnd (env_getM ''capsule_host'') (\<lambda>cap_host.
    let from_version = environ w ''FROM_VERSION'' in
    if from_version \<notin> set [Some ''6.1'', Some ''6.0''] then
      thn (py_print ''Wrong Capsule Version Provided. Provide one of 6.1, 6.0.'')
          (sys_exit 1)
    else
    let to_version = environ w ''TO_VERSION'' in
    if to_version \<notin> set [Some ''6.1'', Some ''6.2''] then
      thn (py_print
            ''Wrong Capsule Version Provided to upgrade to. Provide one of 6.1, 6.2'')
          (sys_exit 1)
    else
    let admin_password =
          (if admin_password0 = None
           then Some (environ_get w ''ADMIN_PASSWORD'' ''changeme'')
           else admin_password0) in
    bnd (distro_info_major w host) (\<lambda>major_ver.
    seqM [
      whenM (environ w ''CAPSULE_URL'' = None)
        (enable_repos w host (capsule_repo major_ver to_version)),
      disable_repos w host (capsule_repo major_ver from_version) False,
      run w host stop_services_cmd False,
      run w host ''yum clean all'' True,
      py_print ''Wait till packages update ... '',
      print_ctime w ''YUM UPDATE started at: '',
      update_packages w host False,
      print_ctime w ''YUM UPDATE finished at: '',
      whenM (from_version = Some ''6.0'') (seqM [
        run w host ''yum install -y capsule-installer'' True,
        run w host
          (''cp /etc/katello-installer/answers.capsule-installer.yaml.rpmsave '' @
           ''/etc/capsule-installer/answers.capsule-installer.yaml'') True
      ]),
      generate_capsule_certs w sat_host cap_host True,
      run w sat_host (scp_certs_cmd cap_host) False,
      whenM (truthy (environ w ''RHEV_CAPSULE'')) (reboot w host 120),
      run w host stop_services_cmd False,
      print_ctime w ''CAPSULE UPGRADE started at: '',
      (if to_version = Some ''6.1'' then
         run w host
           (''capsule-installer --upgrade --certs-tar '' @
            ''/home/'' @ fmt cap_host @ ''-certs.tar'') False
       else
         run w host
           (''satellite-installer --scenario capsule --upgrade --certs-tar '' @
            ''/home/'' @ fmt cap_host @ ''-certs.tar'') False),
      print_ctime w ''CAPSULE UPGRADE finished at: '',
      run w host ''katello-service status'' True
    ])))"

subsection \<open>The top-level orchestration\<close>

text \<open>
  A local variable that only some branches assign is \<open>None\<close> while unassigned and
  \<open>Some v\<close> once it holds \<open>v\<close>; reading it while unassigned raises.
\<close>

fun read_var :: "string \<Rightarrow> 'a option \<Rightarrow> 'a M" where
  "read_var name None = raiseM (NameError name)"
| "read_var name (Some v) = ret v"

text \<open>
  \<^verbatim>\<open>product_upgrade(product, sat_image=None, cap_image=None)\<close>, entered with
  \<^verbatim>\<open>env.host_string = host\<close>.  The first \<^verbatim>\<open>if\<close> assigns \<^verbatim>\<open>version\<close> on one branch
  only and \<^verbatim>\<open>sat_host\<close> on both; it hands both on as a pair.  The capsule block
  assigns \<^verbatim>\<open>cap_host\<close>.
\<close>

definition product_upgrade ::
  "world \<Rightarrow> pystr \<Rightarrow> string \<Rightarrow> pystr \<Rightarrow> pystr \<Rightarrow> unit M" where
  "product_upgrade w host product sat_image cap_image =
    (let products = [''satellite'', ''capsule''] in
     if product \<notin> set products then
       thn (py_print (''Product name should be one of '' @ ''satellite, capsule''))
           (sys_exit 1)
     else
     bnd (if \<not> truthy (environ w ''SATELLITE_HOSTNAME'') then
            if \<not> truthy sat_image \<and> \<not> truthy (environ w ''RHEV_SATELLITE'') then
              thn (py_print
                    (''Please provide either Satellite RHEVM template name or '' @
                     ''Satellite HostName to perform upgrade!''))
                  (sys_exit 1)
            else
            let version = environ w ''OS'' in
            if \<not> truthy version then
              thn (py_print ''Please provide OS version as rhel7 or rhel6, And retry !'')
                  (sys_exit 1)
            else
            let sat_instance = ''upgrade_satellite_auto_'' @ fmt version in
            thn (seqM [
                   delete_rhevm_instance w host sat_instance,
                   py_print ''Turning on Satellite Instance ....'',
                   create_rhevm_instance w host sat_instance sat_image])
            (let sat_host = environ w ''RHEV_SATELLITE'' in
             thn (seqM [
                    host_pings w host sat_host,
                    subscribe w sat_host])
                 (ret (Some version, sat_host)))
          else
            let sat_host = environ w ''SATELLITE_HOSTNAME'' in
            thn (env_set ''satellite_host'' sat_host) (ret (None, sat_host)))
     (\<lambda>(version, sat_host).
     thn (run w sat_host ''katello-service restart'' False)
     (bnd (if product = ''capsule'' then
             bnd (if \<not> truthy (environ w ''CAPSULE_HOSTNAME'') then
                    if \<not> truthy cap_image \<and> \<not> truthy (environ w ''RHEV_CAPSULE'') then
                      thn (py_print
                            (''Please provide either Capsule RHEVM template name or '' @
                             ''Capsule HostName to perform upgrade!''))
                          (sys_exit 1)
                    else
                    bnd (read_var ''version'' version) (\<lambda>version.
                    let cap_instance = ''upgrade_capsule_auto_'' @ fmt version in
                    thn (seqM [
                           delete_rhevm_instance w host cap_instance,
                           py_print ''Turning on Capsule Instance ....'',
                           create_rhevm_instance w host cap_instance cap_image])
                        (ret (environ w ''RHEV_CAPSULE'')))
                  else
                    let cap_host = environ w ''CAPSULE_HOSTNAME'' in
                    thn (env_set ''capsule_host'' cap_host) (ret cap_host))
             (\<lambda>cap_host.
             thn (seqM [
                    copy_ssh_key w host sat_host cap_host,
                    whenM (environ w ''CAPSULE_URL'' \<noteq> None)
                      (sync_capsule_tools_repos_to_upgrade w sat_host)])
                 (ret (Some cap_host)))
           else ret None)
     (\<lambda>cap_host.
     seqM [
       satellite6_upgrade w sat_host None,
       foreman_debug w sat_host ''satellite'',
       whenM (product = ''capsule'')
         (bnd (read_var ''cap_host'' cap_host) (\<lambda>cap_host.
          seqM [
            py_print ([CHR 0x0A] @ ''Running Capsule Upgrade ..........''),
            satellite6_capsule_upgrade w cap_host None,
            foreman_debug w cap_host ''capsule'']))
     ]))))"

section \<open>Straight-line plans\<close>

text \<open>
  None of the three tasks lets the outcome of an operation decide what it does next,
  other than by unwinding.  So each task is the execution of a plan: a list of
  instructions fixed by the world and by the \<^verbatim>\<open>env\<close> dictionary at entry.  The plans
  below are proved equal to the tasks; the properties of the tasks are then read off the
  plans.
\<close>

subsection \<open>Instructions and their execution\<close>

text \<open>\<open>Do h x\<close> issues \<open>x\<close> for host \<open>h\<close>; \<open>Say\<close> and \<open>SayTime\<close> print;
  \<open>SetEnv\<close> assigns a key of \<^verbatim>\<open>env\<close>; \<open>Raise\<close> ends the run.\<close>

datatype instr =
    Do pystr op
  | Say string
  | SayTime string
  | SetEnv string pystr
  | Raise exc

fun exec :: "world \<Rightarrow> instr list \<Rightarrow> unit M" where
  "exec w [] = ret ()"
| "exec w (Do h x # p) = thn (issue w h x) (exec w p)"
| "exec w (Say m # p) = thn (py_print m) (exec w p)"
| "exec w (SayTime m # p) = thn (print_ctime w m) (exec w p)"
| "exec w (SetEnv k v # p) = thn (env_set k v) (exec w p)"
| "exec w (Raise e # p) = raiseM e"

text \<open>The events a plan issues if nothing fails, its outcome in that case, and what it
  makes of \<^verbatim>\<open>env\<close>.\<close>

fun events :: "instr list \<Rightarrow> event list" where
  "events [] = []"
| "events (Do h x # p) = (h, x) # events p"
| "events (Raise e # p) = []"
| "events (i # p) = events p"

fun final :: "instr list \<Rightarrow> exc + unit" where
  "final [] = Inr ()"
| "final (Raise e # p) = Inl e"
| "final (i # p) = final p"

fun plan_env :: "instr list \<Rightarrow> (string \<rightharpoonup> pystr) \<Rightarrow> (string \<rightharpoonup> pystr)" where
  "plan_env [] e = e"
| "plan_env (SetEnv k v # p) e = plan_env p (e(k \<mapsto> v))"
| "plan_env (i # p) e = plan_env p e"

text \<open>A plan that depends on \<^verbatim>\<open>env\<close> as it is when the plan starts.\<close>

definition exec_env :: "world \<Rightarrow> ((string \<rightharpoonup> pystr) \<Rightarrow> instr list) \<Rightarrow> unit M" where
  "exec_env w q = (\<lambda>s. exec w (q (env s)) s)"

text \<open>What is issued of a list of events when the operations that fail are those of
  \<open>f\<close>, counted from \<open>k\<close>: everything up to the first failure that is not tolerated.\<close>

fun issued :: "(nat \<Rightarrow> bool) \<Rightarrow> nat \<Rightarrow> event list \<Rightarrow> event list" where
  "issued f k [] = []"
| "issued f k (e # es) = e # (if f k \<and> \<not> tolerant (snd e) then [] else issued f (Suc k) es)"

fun aborted :: "(nat \<Rightarrow> bool) \<Rightarrow> nat \<Rightarrow> event list \<Rightarrow> bool" where
  "aborted f k [] = False"
| "aborted f k (e # es) = ((f k \<and> \<not> tolerant (snd e)) \<or> aborted f (Suc k) es)"

text \<open>The events a statement adds to the trace.\<close>

definition new_events :: "unit M \<Rightarrow> state \<Rightarrow> event list" where
  "new_events m s = drop (length (trace s)) (trace (snd (m s)))"

subsection \<open>The plan of the hub workflow\<close>

definition hub_plan :: "world \<Rightarrow> pystr \<Rightarrow> pystr \<Rightarrow> instr list" where
  "hub_plan w host admin_password0 =
    (let to_version = environ w ''TO_VERSION'';
         admin_password =
           (if admin_password0 = None
            then Some (environ_get w ''ADMIN_PASSWORD'' ''changeme'')
            else admin_password0);
         major_ver = distro_major w host;
         base_url = environ w ''BASE_URL'';
         rhev = truthy (environ w ''RHEV_SATELLITE'')
     in
     if to_version \<notin> set [Some ''6.1'', Some ''6.2''] then
       [Say ''Wrong Satellite Version Provided to upgrade to. Provide one of 6.1, 6.2'',
        Raise (SysExit 1)]
     else
       [Do host SetYumDebugLevel,
        Do host (Run ''rm -rf /etc/yum.repos.d/rhel-{optional,released}.repo'' False),
        Say ''Wait till Packages update ... '',
        Do host (UpdatePackages True)] @
       (if rhev then [Do host (Reboot 120)] else []) @
       [Do host DistroInfo,
        Do host (DisableRepos ''*'' True),
        Do host (EnableRepos (''rhel-'' @ major_ver @ ''-server-rpms'')),
        Do host (EnableRepos (''rhel-server-rhscl-'' @ major_ver @ ''-rpms''))] @
       (if base_url = None
        then [Do host (EnableRepos
                (''rhel-'' @ major_ver @ ''-server-satellite-'' @ fmt to_version @ ''-rpms''))]
        else [Do host (Put (satellite_repo base_url) ''/etc/yum.repos.d/sat6.repo'')]) @
       [Do host (Run ''katello-service stop'' False)] @
       (if to_version = Some ''6.1''
        then [Do host (Run ''service-wait mongod start'' False)] else []) @
       [Do host (Run ''yum clean all'' True),
        Say ''Wait till packages update ... '',
        SayTime ''YUM UPDATE started at: '',
        Do host (UpdatePackages False),
        SayTime ''YUM UPDATE finished at: ''] @
       (if rhev then [Do host (Reboot 120)] else []) @
       [Do host (Run ''katello-service stop'' False)] @
       (if to_version = Some ''6.1''
        then [Do host (Run ''service-wait mongod start'' False)] else []) @
       [SayTime ''SATELLITE UPGRADE started at: ''] @
       (if to_version = Some ''6.1''
        then [Do host (Run ''katello-installer --upgrade'' False)]
        else [Do host (Run ''satellite-installer --scenario satellite --upgrade'' False)]) @
       [SayTime ''SATELLITE UPGRADE finished at: '',
        Do host (Run (''hammer -u admin -p '' @ fmt admin_password @ '' ping'') True),
        Do host (Run ''katello-service status'' True)])"

subsection \<open>The plan of the subordinate workflow\<close>

text \<open>The plan is cut at the certificate exchange: \<open>capsule_pre\<close> is what comes before
  it, \<open>capsule_post\<close> what comes after.  \<open>sat_host\<close> and \<open>cap_host\<close> are the two
  values read from \<^verbatim>\<open>env\<close> at entry.\<close>

definition capsule_pre :: "world \<Rightarrow> pystr \<Rightarrow> instr list" where
  "capsule_pre w host =
    (let from_version = environ w ''FROM_VERSION'';
         to_version = environ w ''TO_VERSION'';
         major_ver = distro_major w host
     in
       [Do host DistroInfo] @
       (if environ w ''CAPSULE_URL'' = None
        then [Do host (EnableRepos (capsule_repo major_ver to_version))] else []) @
       [Do host (DisableRepos (capsule_repo major_ver from_version) False),
        Do host (Run stop_services_cmd False),
        Do host (Run ''yum clean all'' True),
        Say ''Wait till packages update ... '',
        SayTime ''YUM UPDATE started at: '',
        Do host (UpdatePackages False),
        SayTime ''YUM UPDATE finished at: ''] @
       (if from_version = Some ''6.0''
        then [Do host (Run ''yum install -y capsule-installer'' True),
              Do host (Run
                (''cp /etc/katello-installer/answers.capsule-installer.yaml.rpmsave '' @
                 ''/etc/capsule-installer/answers.capsule-installer.yaml'') True)]
        else []))"

definition capsule_installer_cmd :: "pystr \<Rightarrow> pystr \<Rightarrow> string" where
  "capsule_installer_cmd to_version cap_host =
     (if to_version = Some ''6.1''
      then ''capsule-installer --upgrade --certs-tar '' @
           ''/home/'' @ fmt cap_host @ ''-certs.tar''
      else ''satellite-installer --scenario capsule --upgrade --certs-tar '' @
           ''/home/'' @ fmt cap_host @ ''-certs.tar'')"

definition capsule_post :: "world \<Rightarrow> pystr \<Rightarrow> pystr \<Rightarrow> instr list" where
  "capsule_post w host cap_host =
       (if truthy (environ w ''RHEV_CAPSULE'') then [Do host (Reboot 120)] else []) @
       [Do host (Run stop_services_cmd False),
        SayTime ''CAPSULE UPGRADE started at: '',
        Do host (Run (capsule_installer_cmd (environ w ''TO_VERSION'') cap_host) False),
        SayTime ''CAPSULE UPGRADE finished at: '',
        Do host (Run ''katello-service status'' True)]"

definition capsule_plan :: "world \<Rightarrow> pystr \<Rightarrow> pystr \<Rightarrow> pystr \<Rightarrow> instr list" where
  "capsule_plan w host sat_host cap_host =
     (if environ w ''FROM_VERSION'' \<notin> set [Some ''6.1'', Some ''6.0''] then
        [Say ''Wrong Capsule Version Provided. Provide one of 6.1, 6.0.'',
         Raise (SysExit 1)]
      else if environ w ''TO_VERSION'' \<notin> set [Some ''6.1'', Some ''6.2''] then
        [Say ''Wrong Capsule Version Provided to upgrade to. Provide one of 6.1, 6.2'',
         Raise (SysExit 1)]
      else
        capsule_pre w host @
        [Do sat_host (GenerateCapsuleCerts cap_host True),
         Do sat_host (Run (scp_certs_cmd cap_host) False)] @
        capsule_post w host cap_host)"

subsection \<open>The plan of the top-level orchestration\<close>

text \<open>From the end: what follows the capsule block, the capsule block, what follows the
  resolution of the hub, and the whole.  \<open>version\<close> and \<open>cap_host\<close> are \<open>None\<close> while
  the variable is unassigned.\<close>

definition product_tail ::
  "world \<Rightarrow> string \<Rightarrow> pystr \<Rightarrow> pystr option \<Rightarrow> (string \<rightharpoonup> pystr) \<Rightarrow> instr list" where
  "product_tail w product sat_host cap_host e =
     hub_plan w sat_host None @
     [Do sat_host (ForemanDebug ''satellite'')] @
     (if product = ''capsule'' then
        (case cap_host of
           None \<Rightarrow> [Raise (NameError ''cap_host'')]
         | Some c \<Rightarrow>
             [Say ([CHR 0x0A] @ ''Running Capsule Upgrade ..........'')] @
             capsule_plan w c (env_get e ''satellite_host'') (env_get e ''capsule_host'') @
             [Do c (ForemanDebug ''capsule'')])
      else [])"

definition capsule_block ::
  "world \<Rightarrow> pystr \<Rightarrow> pystr \<Rightarrow> pystr option \<Rightarrow> pystr \<Rightarrow> (string \<rightharpoonup> pystr) \<Rightarrow> instr list" where
  "capsule_block w host cap_image version sat_host e =
     (if \<not> truthy (environ w ''CAPSULE_HOSTNAME'') then
        if \<not> truthy cap_image \<and> \<not> truthy (environ w ''RHEV_CAPSULE'') then
          [Say (''Please provide either Capsule RHEVM template name or '' @
                ''Capsule HostName to perform upgrade!''),
           Raise (SysExit 1)]
        else
          (case version of
             None \<Rightarrow> [Raise (NameError ''version'')]
           | Some v \<Rightarrow>
               [Do host (DeleteRhevmInstance (''upgrade_capsule_auto_'' @ fmt v)),
                Say ''Turning on Capsule Instance ....'',
                Do host (CreateRhevmInstance (''upgrade_capsule_auto_'' @ fmt v) cap_image),
                Do host (CopySshKey sat_host (environ w ''RHEV_CAPSULE''))] @
               (if environ w ''CAPSULE_URL'' \<noteq> None
                then [Do sat_host SyncCapsuleToolsReposToUpgrade] else []) @
               product_tail w ''capsule'' sat_host (Some (environ w ''RHEV_CAPSULE'')) e)
      else
        [SetEnv ''capsule_host'' (environ w ''CAPSULE_HOSTNAME''),
         Do host (CopySshKey sat_host (environ w ''CAPSULE_HOSTNAME''))] @
        (if environ w ''CAPSULE_URL'' \<noteq> None
         then [Do sat_host SyncCapsuleToolsReposToUpgrade] else []) @
        product_tail w ''capsule'' sat_host (Some (environ w ''CAPSULE_HOSTNAME''))
          (e(''capsule_host'' \<mapsto> environ w ''CAPSULE_HOSTNAME'')))"

definition product_rest ::
  "world \<Rightarrow> pystr \<Rightarrow> string \<Rightarrow> pystr \<Rightarrow> pystr option \<Rightarrow> pystr \<Rightarrow> (string \<rightharpoonup> pystr) \<Rightarrow> instr list" where
  "product_rest w host product cap_image version sat_host e =
     [Do sat_host (Run ''katello-service restart'' False)] @
     (if product = ''capsule''
      then capsule_block w host cap_image version sat_host e
      else product_tail w product sat_host None e)"

definition product_plan ::
  "world \<Rightarrow> pystr \<Rightarrow> string \<Rightarrow> pystr \<Rightarrow> pystr \<Rightarrow> (string \<rightharpoonup> pystr) \<Rightarrow> instr list" where
  "product_plan w host product sat_image cap_image e =
     (if product \<notin> set [''satellite'', ''capsule''] then
        [Say (''Product name should be one of '' @ ''satellite, capsule''), Raise (SysExit 1)]
      else if \<not> truthy (environ w ''SATELLITE_HOSTNAME'') then
        if \<not> truthy sat_image \<and> \<not> truthy (environ w ''RHEV_SATELLITE'') then
          [Say (''Please provide either Satellite RHEVM template name or '' @
                ''Satellite HostName to perform upgrade!''),
           Raise (SysExit 1)]
        else if \<not> truthy (environ w ''OS'') then
          [Say ''Please provide OS version as rhel7 or rhel6, And retry !'',
           Raise (SysExit 1)]
        else
          [Do host (DeleteRhevmInstance (''upgrade_satellite_auto_'' @ fmt (environ w ''OS''))),
           Say ''Turning on Satellite Instance ....'',
           Do host (CreateRhevmInstance (''upgrade_satellite_auto_'' @ fmt (environ w ''OS''))
                      sat_image),
           Do host (HostPings (environ w ''RHEV_SATELLITE'')),
           Do (environ w ''RHEV_SATELLITE'') Subscribe] @
          product_rest w host product cap_image (Some (environ w ''OS''))
            (environ w ''RHEV_SATELLITE'') e
      else
        [SetEnv ''satellite_host'' (environ w ''SATELLITE_HOSTNAME'')] @
        product_rest w host product cap_image None (environ w ''SATELLITE_HOSTNAME'')
          (e(''satellite_host'' \<mapsto> environ w ''SATELLITE_HOSTNAME'')))"

subsection \<open>The operations of a complete run\<close>

text \<open>The operations of the workflows in a run that passes the validation and in which
  nothing fails, without their hosts.\<close>

definition hub_ops :: "world \<Rightarrow> pystr \<Rightarrow> pystr \<Rightarrow> op list" where
  "hub_ops w host pw =
       [SetYumDebugLevel,
        Run ''rm -rf /etc/yum.repos.d/rhel-{optional,released}.repo'' False,
        UpdatePackages True] @
       (if truthy (environ w ''RHEV_SATELLITE'') then [Reboot 120] else []) @
       [DistroInfo,
        DisableRepos ''*'' True,
        EnableRepos (''rhel-'' @ distro_major w host @ ''-server-rpms''),
        EnableRepos (''rhel-server-rhscl-'' @ distro_major w host @ ''-rpms''),
        (if environ w ''BASE_URL'' = None
         then EnableRepos (''rhel-'' @ distro_major w host @ ''-server-satellite-'' @
                 fmt (environ w ''TO_VERSION'') @ ''-rpms'')
         else Put (satellite_repo (environ w ''BASE_URL'')) ''/etc/yum.repos.d/sat6.repo''),
        Run ''katello-service stop'' False] @
       (if environ w ''TO_VERSION'' = Some ''6.1''
        then [Run ''service-wait mongod start'' False] else []) @
       [Run ''yum clean all'' True,
        UpdatePackages False] @
       (if truthy (environ w ''RHEV_SATELLITE'') then [Reboot 120] else []) @
       [Run ''katello-service stop'' False] @
       (if environ w ''TO_VERSION'' = Some ''6.1''
        then [Run ''service-wait mongod start'' False] else []) @
       [(if environ w ''TO_VERSION'' = Some ''6.1''
         then Run ''katello-installer --upgrade'' False
         else Run ''satellite-installer --scenario satellite --upgrade'' False),
        Run (''hammer -u admin -p '' @
             fmt (if pw = None then Some (environ_get w ''ADMIN_PASSWORD'' ''changeme'') else pw) @
             '' ping'') True,
        Run ''katello-service status'' True]"

definition capsule_pre_ops :: "world \<Rightarrow> pystr \<Rightarrow> op list" where
  "capsule_pre_ops w host =
     [DistroInfo] @
     (if environ w ''CAPSULE_URL'' = None
      then [EnableRepos (capsule_repo (distro_major w host) (environ w ''TO_VERSION''))]
      else []) @
     [DisableRepos (capsule_repo (distro_major w host) (environ w ''FROM_VERSION'')) False,
      Run stop_services_cmd False,
      Run ''yum clean all'' True,
      UpdatePackages False] @
     (if environ w ''FROM_VERSION'' = Some ''6.0''
      then [Run ''yum install -y capsule-installer'' True,
            Run (''cp /etc/katello-installer/answers.capsule-installer.yaml.rpmsave '' @
                 ''/etc/capsule-installer/answers.capsule-installer.yaml'') True]
      else [])"

definition capsule_post_ops :: "world \<Rightarrow> pystr \<Rightarrow> op list" where
  "capsule_post_ops w ch =
     (if truthy (environ w ''RHEV_CAPSULE'') then [Reboot 120] else []) @
     [Run stop_services_cmd False,
      Run (capsule_installer_cmd (environ w ''TO_VERSION'') ch) False,
      Run ''katello-service status'' True]"

definition capsule_ops :: "world \<Rightarrow> pystr \<Rightarrow> pystr \<Rightarrow> op list" where
  "capsule_ops w host ch =
     capsule_pre_ops w host @
     [GenerateCapsuleCerts ch True, Run (scp_certs_cmd ch) False] @
     capsule_post_ops w ch"

subsection \<open>Vocabulary of the claims\<close>

text \<open>Repository configuration: enabling or disabling a repository, or putting a file.\<close>

fun is_repo_op :: "op \<Rightarrow> bool" where
  "is_repo_op (EnableRepos r) = True"
| "is_repo_op (DisableRepos r silent) = True"
| "is_repo_op (Put content path) = True"
| "is_repo_op other = False"


text \<open>The two commands of the legacy-installer migration.\<close>

definition legacy_migration :: "op list" where
  "legacy_migration =
     [Run ''yum install -y capsule-installer'' True,
      Run (''cp /etc/katello-installer/answers.capsule-installer.yaml.rpmsave '' @
           ''/etc/capsule-installer/answers.capsule-installer.yaml'') True]"

text \<open>The world with another source version, and the repository name that goes with it.\<close>

definition with_from :: "world \<Rightarrow> string \<Rightarrow> world" where
  "with_from w v = w\<lparr>environ := (environ w)(''FROM_VERSION'' \<mapsto> v)\<rparr>"

definition rename_disabled :: "string \<Rightarrow> op \<Rightarrow> op" where
  "rename_disabled major x =
     (if x = DisableRepos (capsule_repo major (Some ''6.0'')) False
      then DisableRepos (capsule_repo major (Some ''6.1'')) False else x)"

subsection \<open>Sample runs\<close>

text \<open>A fresh state, and one in which \<^verbatim>\<open>product_upgrade\<close> has named both hosts.\<close>

definition s0 :: state where
  "s0 = \<lparr>trace = [], stdout = [], env = Map.empty\<rparr>"

definition s_cap :: state where
  "s_cap = \<lparr>trace = [], stdout = [],
            env = [''satellite_host'' \<mapsto> Some ''sat.example.com'',
                   ''capsule_host'' \<mapsto> Some ''cap.example.com'']\<rparr>"

text \<open>A hub upgrade to 6.2 in which \<^verbatim>\<open>yum clean all\<close> (operation 9) and the second
  \<^verbatim>\<open>katello-service stop\<close> (operation 11) fail, and one in which nothing fails.\<close>

definition w_hub :: world where
  "w_hub = \<lparr>environ = [''TO_VERSION'' \<mapsto> ''6.2''],
            fails = (\<lambda>k. k = 9 \<or> k = 11),
            distro_major = (\<lambda>h. ''7''),
            ctime = (\<lambda>k. ''Mon Jan  1 00:00:00 2018'')\<rparr>"

definition w_hub_ok :: world where
  "w_hub_ok = \<lparr>environ = [''TO_VERSION'' \<mapsto> ''6.2''],
               fails = (\<lambda>k. False),
               distro_major = (\<lambda>h. ''7''),
               ctime = (\<lambda>k. ''Mon Jan  1 00:00:00 2018'')\<rparr>"

text \<open>Subordinate upgrades in which nothing fails: from 6.0 to 6.1, from 6.1 to 6.2, and
  from 6.1 to 6.2 with a custom repository.\<close>

definition w_cap60 :: world where
  "w_cap60 = \<lparr>environ = [''FROM_VERSION'' \<mapsto> ''6.0'', ''TO_VERSION'' \<mapsto> ''6.1''],
              fails = (\<lambda>k. False),
              distro_major = (\<lambda>h. ''7''),
              ctime = (\<lambda>k. ''Mon Jan  1 00:00:00 2018'')\<rparr>"


definition w_cap_url :: world where
  "w_cap_url = \<lparr>environ = [''FROM_VERSION'' \<mapsto> ''6.1'', ''TO_VERSION'' \<mapsto> ''6.2'',
                          ''CAPSULE_URL'' \<mapsto> ''http://repo.example.com/capsule''],
                fails = (\<lambda>k. False),
                distro_major = (\<lambda>h. ''7''),
                ctime = (\<lambda>k. ''Mon Jan  1 00:00:00 2018'')\<rparr>"

text \<open>Runs of \<^verbatim>\<open>product_upgrade\<close>: a named hub with a capsule to provision; a named hub
  and no capsule at all; a hub to provision and an unsupported target version; both
  hosts to provision.\<close>

definition w_named_hub :: world where
  "w_named_hub = \<lparr>environ = [''SATELLITE_HOSTNAME'' \<mapsto> ''sat.example.com'',
                            ''RHEV_CAPSULE'' \<mapsto> ''cap.example.com'',
                            ''OS'' \<mapsto> ''rhel7'',
                            ''FROM_VERSION'' \<mapsto> ''6.1'', ''TO_VERSION'' \<mapsto> ''6.2''],
                  fails = (\<lambda>k. False),
                  distro_major = (\<lambda>h. ''7''),
                  ctime = (\<lambda>k. ''Mon Jan  1 00:00:00 2018'')\<rparr>"

definition w_no_capsule :: world where
  "w_no_capsule = \<lparr>environ = [''SATELLITE_HOSTNAME'' \<mapsto> ''sat.example.com'',
                             ''FROM_VERSION'' \<mapsto> ''6.0'', ''TO_VERSION'' \<mapsto> ''6.1''],
                   fails = (\<lambda>k. False),
                   distro_major = (\<lambda>h. ''7''),
                   ctime = (\<lambda>k. ''Mon Jan  1 00:00:00 2018'')\<rparr>"



section \<open>Properties\<close>

subsection \<open>Laws of the combinators\<close>

lemma thn_ret [simp]: "thn (ret ()) m = m"
  by (simp add: thn_def bnd_def ret_def)

lemma bnd_ret [simp]: "bnd (ret x) f = f x"
  by (simp add: bnd_def ret_def)

lemma thn_raise [simp]: "thn (raiseM e) m = raiseM e"
  by (simp add: thn_def bnd_def raiseM_def)

lemma bnd_raise [simp]: "bnd (raiseM e) f = raiseM e"
  by (simp add: bnd_def raiseM_def)

lemma thn_assoc: "thn (thn a b) c = thn a (thn b c)"
  by (auto simp: thn_def bnd_def split: prod.splits sum.splits)

lemma bnd_thn: "bnd (thn a b) f = thn a (bnd b f)"
  by (auto simp: thn_def bnd_def split: prod.splits sum.splits)

subsection \<open>Execution of plans\<close>

lemma exec_append: "exec w (p @ q) = thn (exec w p) (exec w q)"
proof (induction p)
  case Nil
  show ?case by simp
next
  case (Cons i p)
  then show ?case by (cases i) (simp_all add: thn_assoc)
qed

lemma exec_env_plan: "fst (exec w p s) = Inr u \<Longrightarrow> env (snd (exec w p s)) = plan_env p (env s)"
proof (induction p arbitrary: s)
  case Nil
  then show ?case by (simp add: ret_def)
next
  case (Cons i p)
  show ?case
  proof (cases i)
    case (Do h x)
    with Cons show ?thesis
      by (auto simp: thn_def bnd_def issue_def Let_def split: if_splits prod.splits sum.splits)
  next
    case (Say m)
    with Cons show ?thesis by (auto simp: thn_def bnd_def py_print_def)
  next
    case (SayTime m)
    with Cons show ?thesis by (auto simp: thn_def bnd_def print_ctime_def)
  next
    case (SetEnv k v)
    with Cons show ?thesis by (simp add: thn_def bnd_def env_set_def fun_upd_def)
  next
    case (Raise e)
    with Cons show ?thesis by (simp add: raiseM_def)
  qed
qed

lemma thn_exec_exec_env:
  "thn (exec w p) (exec_env w q) = exec_env w (\<lambda>e. p @ q (plan_env p e))"
proof
  fix s
  show "thn (exec w p) (exec_env w q) s = exec_env w (\<lambda>e. p @ q (plan_env p e)) s"
  proof (cases "exec w p s")
    case (Pair r s')
    show ?thesis
    proof (cases r)
      case (Inl e)
      with Pair show ?thesis
        by (simp add: exec_env_def exec_append thn_def bnd_def)
    next
      case (Inr u)
      with Pair exec_env_plan [of w p s u] show ?thesis
        by (simp add: exec_env_def exec_append thn_def bnd_def)
    qed
  qed
qed

lemma thn_exec_env_exec:
  "thn (exec_env w q) (exec w p) = exec_env w (\<lambda>e. q e @ p)"
  by (rule ext) (simp add: exec_env_def exec_append thn_def bnd_def)

subsection \<open>The tasks are plans\<close>

lemma issue_exec: "issue w h x = exec w [Do h x]"
  by (simp add: thn_def bnd_def ret_def issue_def Let_def fun_eq_iff)

lemma py_print_exec: "py_print m = exec w [Say m]"
  by (simp add: thn_def bnd_def ret_def py_print_def fun_eq_iff)

lemma print_ctime_exec: "print_ctime w m = exec w [SayTime m]"
  by (simp add: thn_def bnd_def ret_def print_ctime_def fun_eq_iff)

lemma env_set_exec: "env_set k v = exec w [SetEnv k v]"
  by (simp add: thn_def bnd_def ret_def env_set_def fun_eq_iff)

lemma raise_exec: "raiseM e = exec w [Raise e]"
  by simp

lemma ret_exec: "ret () = exec w []"
  by simp

lemma thn_exec: "thn (exec w p) (exec w q) = exec w (p @ q)"
  by (simp add: exec_append)

lemma thn_exec2: "thn (exec w p) (thn (exec w q) m) = thn (exec w (p @ q)) m"
  by (simp add: exec_append thn_assoc)

lemma when_exec: "whenM b (exec w p) = exec w (if b then p else [])"
  by (simp add: whenM_def)

lemma if_exec: "(if b then exec w p else exec w q) = exec w (if b then p else q)"
  by simp

lemma bnd_if: "bnd (if b then m else n) f = (if b then bnd m f else bnd n f)"
  by simp

lemma bnd_distro:
  "bnd (distro_info_major w h) f = thn (exec w [Do h DistroInfo]) (f (distro_major w h))"
  by (auto simp: distro_info_major_def thn_def bnd_def ret_def fun_eq_iff
      split: prod.splits sum.splits)

lemmas call_defs = run_def put_def set_yum_debug_level_def update_packages_def reboot_def
  enable_repos_def disable_repos_def generate_capsule_certs_def delete_rhevm_instance_def
  create_rhevm_instance_def host_pings_def subscribe_def copy_ssh_key_def
  sync_capsule_tools_repos_to_upgrade_def foreman_debug_def sys_exit_def

lemmas to_exec = call_defs issue_exec print_ctime_exec thn_exec thn_exec2 when_exec if_exec
  bnd_distro bnd_thn

lemma satellite6_upgrade_exec:
  "satellite6_upgrade w host pw = exec w (hub_plan w host pw)"
  unfolding satellite6_upgrade_def hub_plan_def Let_def
  by (simp add: to_exec py_print_exec [where w = w] raise_exec [where w = w]
      ret_exec [where w = w] del: exec.simps)

lemma bnd_env_getM: "bnd (env_getM k) f = (\<lambda>s. f (env_get (env s) k) s)"
  by (simp add: bnd_def env_getM_def)

lemma satellite6_capsule_upgrade_exec:
  "satellite6_capsule_upgrade w host pw =
     exec_env w (\<lambda>e. capsule_plan w host (env_get e ''satellite_host'')
                                         (env_get e ''capsule_host''))"
  unfolding satellite6_capsule_upgrade_def capsule_plan_def capsule_pre_def capsule_post_def
    capsule_installer_cmd_def Let_def exec_env_def bnd_env_getM
  by (rule ext)
     (simp add: to_exec py_print_exec [where w = w] raise_exec [where w = w]
      ret_exec [where w = w] del: exec.simps)

subsection \<open>What a plan issues\<close>

lemma exec_trace:
  "trace (snd (exec w p s)) = trace s @ issued (fails w) (length (trace s)) (events p)"
proof (induction p arbitrary: s)
  case Nil
  show ?case by (simp add: ret_def)
next
  case (Cons i p)
  show ?case
  proof (cases i)
    case (Do h x)
    show ?thesis
      using Cons [of "s\<lparr>trace := trace s @ [(h, x)]\<rparr>"] Do
      by (simp add: thn_def bnd_def issue_def Let_def)
  next
    case (Say m)
    show ?thesis using Cons [of "s\<lparr>stdout := stdout s @ [m]\<rparr>"] Say
      by (simp add: thn_def bnd_def py_print_def)
  next
    case (SayTime m)
    show ?thesis
      using Cons [of "s\<lparr>stdout := stdout s @ [m @ ctime w (length (trace s))]\<rparr>"] SayTime
      by (simp add: thn_def bnd_def print_ctime_def)
  next
    case (SetEnv k v)
    show ?thesis using Cons [of "s\<lparr>env := (env s)(k \<mapsto> v)\<rparr>"] SetEnv
      by (simp add: thn_def bnd_def env_set_def)
  next
    case (Raise e)
    then show ?thesis by (simp add: raiseM_def)
  qed
qed

lemma exec_result:
  "fst (exec w p s) =
     (if aborted (fails w) (length (trace s)) (events p) then Inl FabricAbort else final p)"
proof (induction p arbitrary: s)
  case Nil
  show ?case by (simp add: ret_def)
next
  case (Cons i p)
  show ?case
  proof (cases i)
    case (Do h x)
    show ?thesis
      using Cons [of "s\<lparr>trace := trace s @ [(h, x)]\<rparr>"] Do
      by (simp add: thn_def bnd_def issue_def Let_def)
  next
    case (Say m)
    show ?thesis using Cons [of "s\<lparr>stdout := stdout s @ [m]\<rparr>"] Say
      by (simp add: thn_def bnd_def py_print_def)
  next
    case (SayTime m)
    show ?thesis
      using Cons [of "s\<lparr>stdout := stdout s @ [m @ ctime w (length (trace s))]\<rparr>"] SayTime
      by (simp add: thn_def bnd_def print_ctime_def)
  next
    case (SetEnv k v)
    show ?thesis using Cons [of "s\<lparr>env := (env s)(k \<mapsto> v)\<rparr>"] SetEnv
      by (simp add: thn_def bnd_def env_set_def)
  next
    case (Raise e)
    then show ?thesis by (simp add: raiseM_def)
  qed
qed

lemma issued_take: "\<exists>n. issued f k es = take n es"
proof (induction es arbitrary: k)
  case Nil
  show ?case by simp
next
  case (Cons e es)
  show ?case
  proof (cases "f k \<and> \<not> tolerant (snd e)")
    case True
    then have "issued f k (e # es) = take 1 (e # es)" by simp
    then show ?thesis by blast
  next
    case False
    from Cons [of "Suc k"] obtain n where "issued f (Suc k) es = take n es" by blast
    with False have "issued f k (e # es) = take (Suc n) (e # es)" by auto
    then show ?thesis by blast
  qed
qed

lemma issued_length: "length (issued f k es) \<le> length es"
  using issued_take [of f k es] by (auto simp: min_def)

lemma issued_nth: "i < length (issued f k es) \<Longrightarrow> issued f k es ! i = es ! i"
  using issued_take [of f k es] by auto

lemma issued_set: "set (issued f k es) \<subseteq> set es"
  using issued_take [of f k es] by (auto dest: in_set_takeD)

lemma issued_stop:
  "i < length (issued f k es) \<Longrightarrow> f (k + i) \<Longrightarrow> \<not> tolerant (snd (es ! i)) \<Longrightarrow>
     length (issued f k es) = Suc i \<and> aborted f k es"
proof (induction es arbitrary: k i)
  case Nil
  then show ?case by simp
next
  case (Cons e es)
  show ?case
  proof (cases i)
    case 0
    with Cons.prems show ?thesis by simp
  next
    case (Suc j)
    with Cons.prems have go: "\<not> (f k \<and> \<not> tolerant (snd e))"
      by (auto split: if_splits)
    with Cons.prems Suc have "j < length (issued f (Suc k) es)" "f (Suc k + j)"
      "\<not> tolerant (snd (es ! j))" by auto
    from Cons.IH [OF this] go Suc show ?thesis by simp
  qed
qed

lemma issued_all: "\<not> aborted f k es \<Longrightarrow> issued f k es = es"
  by (induction es arbitrary: k) auto

lemma exec_fails_cong:
  "\<forall>i<length (events p). \<not> tolerant (snd (events p ! i)) \<longrightarrow>
       g (length (trace s) + i) = fails w (length (trace s) + i) \<Longrightarrow>
   exec (w\<lparr>fails := g\<rparr>) p s = exec w p s"
proof (induction p arbitrary: s)
  case Nil
  show ?case by simp
next
  case (Cons i p)
  show ?case
  proof (cases i)
    case (Do h x)
    have hd: "\<not> tolerant x \<Longrightarrow> g (length (trace s)) = fails w (length (trace s))"
      using Cons.prems Do by auto
    have "\<forall>j<length (events p). \<not> tolerant (snd (events p ! j)) \<longrightarrow>
        g (length (trace (s\<lparr>trace := trace s @ [(h, x)]\<rparr>)) + j) =
        fails w (length (trace (s\<lparr>trace := trace s @ [(h, x)]\<rparr>)) + j)"
    proof (intro allI impI)
      fix j assume "j < length (events p)" "\<not> tolerant (snd (events p ! j))"
      with Cons.prems Do have "g (length (trace s) + Suc j) = fails w (length (trace s) + Suc j)"
        by (auto simp del: add_Suc_right)
      then show "g (length (trace (s\<lparr>trace := trace s @ [(h, x)]\<rparr>)) + j) =
        fails w (length (trace (s\<lparr>trace := trace s @ [(h, x)]\<rparr>)) + j)" by simp
    qed
    from Cons.IH [OF this] hd Do show ?thesis
      by (auto simp: thn_def bnd_def issue_def Let_def)
  next
    case (Say m)
    with Cons show ?thesis by (simp add: thn_def bnd_def py_print_def)
  next
    case (SayTime m)
    with Cons show ?thesis by (simp add: thn_def bnd_def print_ctime_def)
  next
    case (SetEnv k v)
    with Cons show ?thesis by (simp add: thn_def bnd_def env_set_def)
  next
    case (Raise e)
    then show ?thesis by simp
  qed
qed

lemma aborted_last:
  "aborted f k es \<Longrightarrow>
     issued f k es \<noteq> [] \<and> \<not> tolerant (snd (last (issued f k es)))"
proof (induction es arbitrary: k)
  case Nil
  then show ?case by simp
next
  case (Cons e es)
  show ?case
  proof (cases "f k \<and> \<not> tolerant (snd e)")
    case True
    then show ?thesis by simp
  next
    case False
    with Cons.prems have "aborted f (Suc k) es" by simp
    from Cons.IH [OF this] False show ?thesis by auto
  qed
qed

lemma final_append:
  "final (p @ q) = (case final p of Inl e \<Rightarrow> Inl e | Inr u \<Rightarrow> final q)"
proof (induction p)
  case Nil
  show ?case by simp
next
  case (Cons i p)
  then show ?case by (cases i) simp_all
qed

lemma events_append:
  "events (p @ q) = (case final p of Inl e \<Rightarrow> events p | Inr u \<Rightarrow> events p @ events q)"
proof (induction p)
  case Nil
  show ?case by simp
next
  case (Cons i p)
  then show ?case by (cases i) (simp_all split: sum.splits)
qed

lemma exec_policy:
  assumes k: "length (trace s) \<le> k" "k < length (trace (snd (exec w p s)))"
    and f: "fails w k"
  shows "(\<not> tolerant (snd (trace (snd (exec w p s)) ! k)) \<longrightarrow>
            length (trace (snd (exec w p s))) = Suc k \<and> fst (exec w p s) = Inl FabricAbort)
       \<and> (tolerant (snd (trace (snd (exec w p s)) ! k)) \<longrightarrow>
            exec (w\<lparr>fails := (fails w)(k := False)\<rparr>) p s = exec w p s \<and>
            (Suc k < length (trace (snd (exec w p s))) \<or> fst (exec w p s) = final p))"
proof -
  let ?b = "length (trace s)"
  let ?es = "events p"
  let ?is = "issued (fails w) ?b ?es"
  define i where "i = k - ?b"
  have tr: "trace (snd (exec w p s)) = trace s @ ?is" by (rule exec_trace)
  from k tr have i: "i < length ?is" "k = ?b + i" by (auto simp: i_def)
  have at: "trace (snd (exec w p s)) ! k = ?es ! i"
    using i tr by (simp add: nth_append issued_nth)
  have il: "i < length ?es" using i issued_length [of "fails w" ?b ?es] by simp
  show ?thesis
  proof (intro conjI impI)
    assume m: "\<not> tolerant (snd (trace (snd (exec w p s)) ! k))"
    from issued_stop [of i "fails w" ?b ?es] i f m at
    have st: "length ?is = Suc i" "aborted (fails w) ?b ?es" by auto
    from st tr i show "length (trace (snd (exec w p s))) = Suc k" by simp
    from st show "fst (exec w p s) = Inl FabricAbort" by (simp add: exec_result)
  next
    assume t: "tolerant (snd (trace (snd (exec w p s)) ! k))"
    have "\<forall>j<length ?es. \<not> tolerant (snd (?es ! j)) \<longrightarrow>
        ((fails w)(k := False)) (?b + j) = fails w (?b + j)"
      using t at i by auto
    then show "exec (w\<lparr>fails := (fails w)(k := False)\<rparr>) p s = exec w p s"
      by (rule exec_fails_cong)
  next
    assume t: "tolerant (snd (trace (snd (exec w p s)) ! k))"
    show "Suc k < length (trace (snd (exec w p s))) \<or> fst (exec w p s) = final p"
    proof (cases "Suc i < length ?is")
      case True
      with tr i show ?thesis by simp
    next
      case False
      with i have l: "length ?is = Suc i" by simp
      have "\<not> aborted (fails w) ?b ?es"
      proof
        assume "aborted (fails w) ?b ?es"
        from aborted_last [OF this] have "\<not> tolerant (snd (last ?is))" by simp
        moreover have "?is \<noteq> []" using l by auto
        then have "last ?is = ?is ! i" using l by (simp add: last_conv_nth)
        then have "last ?is = ?es ! i" using i by (simp add: issued_nth)
        ultimately show False using t at by simp
      qed
      then show ?thesis by (simp add: exec_result)
    qed
  qed
qed

subsection \<open>Failure policy\<close>

lemma hub_plan_fails [simp]: "hub_plan (w\<lparr>fails := g\<rparr>) host pw = hub_plan w host pw"
  by (simp add: hub_plan_def environ_get_def Let_def)

lemma capsule_plan_fails [simp]:
  "capsule_plan (w\<lparr>fails := g\<rparr>) host sh ch = capsule_plan w host sh ch"
  by (simp add: capsule_plan_def capsule_pre_def capsule_post_def Let_def)

lemma hub_plan_final:
  "events (hub_plan w host pw) \<noteq> [] \<Longrightarrow> final (hub_plan w host pw) = Inr ()"
  by (auto simp: hub_plan_def Let_def final_append split: if_splits)

lemma capsule_plan_final:
  "events (capsule_plan w host sh ch) \<noteq> [] \<Longrightarrow> final (capsule_plan w host sh ch) = Inr ()"
  by (auto simp: capsule_plan_def capsule_pre_def capsule_post_def Let_def final_append
      split: if_splits)

text \<open>
  Claim C2.  In the hub and in the subordinate workflow, let the operation issued as
  the \<open>k\<close>-th fail.  If it is mandatory (anything but \<^verbatim>\<open>run(..., warn_only=True)\<close>), it is
  the last operation of the workflow and the workflow ends with the abort.  If it is
  tolerant, the workflow goes on exactly as if the operation had succeeded: the run is
  the run of the world in which operation \<open>k\<close> succeeds, and either a later operation
  is issued or the workflow has returned normally.
\<close>

theorem phase_failure_policy:
  assumes task: "task = satellite6_upgrade \<or> task = satellite6_capsule_upgrade"
    and k: "length (trace s) \<le> k" "k < length (trace (snd (task w host pw s)))"
    and f: "fails w k"
  shows "(\<not> tolerant (snd (trace (snd (task w host pw s)) ! k)) \<longrightarrow>
            length (trace (snd (task w host pw s))) = Suc k \<and>
            fst (task w host pw s) = Inl FabricAbort)
       \<and> (tolerant (snd (trace (snd (task w host pw s)) ! k)) \<longrightarrow>
            task (w\<lparr>fails := (fails w)(k := False)\<rparr>) host pw s = task w host pw s \<and>
            (Suc k < length (trace (snd (task w host pw s))) \<or>
             fst (task w host pw s) = Inr ()))"
proof -
  obtain p where p: "\<And>g. task (w\<lparr>fails := g\<rparr>) host pw s = exec (w\<lparr>fails := g\<rparr>) p s"
    "task w host pw s = exec w p s" "events p \<noteq> [] \<Longrightarrow> final p = Inr ()"
  proof (cases "task = satellite6_upgrade")
    case True
    show ?thesis
      by (rule that [of "hub_plan w host pw"])
         (simp_all add: True satellite6_upgrade_exec hub_plan_final)
  next
    case False
    with task have c: "task = satellite6_capsule_upgrade" by simp
    show ?thesis
      by (rule that [of "capsule_plan w host (env_get (env s) ''satellite_host'')
             (env_get (env s) ''capsule_host'')"])
         (simp_all add: c satellite6_capsule_upgrade_exec exec_env_def capsule_plan_final)
  qed
  from k p(2) have ne: "events p \<noteq> []"
    by (auto simp: exec_trace)
  from exec_policy [of s k w p] k f p ne show ?thesis by simp
qed

subsection \<open>The events of the workflows\<close>

lemma new_events_exec:
  "new_events (exec w p) s = issued (fails w) (length (trace s)) (events p)"
  by (simp add: new_events_def exec_trace)

lemma new_events_exec_env:
  "new_events (exec_env w q) s = issued (fails w) (length (trace s)) (events (q (env s)))"
  by (simp add: new_events_def exec_env_def exec_trace)

lemma not_aborted: "\<forall>k. \<not> f k \<Longrightarrow> \<not> aborted f k es"
  by (induction es arbitrary: k) auto

lemma issued_no_fail: "\<forall>k. \<not> f k \<Longrightarrow> issued f k es = es"
  by (simp add: issued_all not_aborted)

lemmas plan_simps = events_append final_append if_distrib [of events] if_distrib [of final]
  if_distrib [of "case_sum _ _"]

lemma hub_ops_valid:
  "environ w ''TO_VERSION'' \<in> {Some ''6.1'', Some ''6.2''} \<Longrightarrow>
   map snd (events (hub_plan w host pw)) =
       [SetYumDebugLevel,
        Run ''rm -rf /etc/yum.repos.d/rhel-{optional,released}.repo'' False,
        UpdatePackages True] @
       (if truthy (environ w ''RHEV_SATELLITE'') then [Reboot 120] else []) @
       [DistroInfo,
        DisableRepos ''*'' True,
        EnableRepos (''rhel-'' @ distro_major w host @ ''-server-rpms''),
        EnableRepos (''rhel-server-rhscl-'' @ distro_major w host @ ''-rpms''),
        (if environ w ''BASE_URL'' = None
         then EnableRepos (''rhel-'' @ distro_major w host @ ''-server-satellite-'' @
                 fmt (environ w ''TO_VERSION'') @ ''-rpms'')
         else Put (satellite_repo (environ w ''BASE_URL'')) ''/etc/yum.repos.d/sat6.repo''),
        Run ''katello-service stop'' False] @
       (if environ w ''TO_VERSION'' = Some ''6.1''
        then [Run ''service-wait mongod start'' False] else []) @
       [Run ''yum clean all'' True,
        UpdatePackages False] @
       (if truthy (environ w ''RHEV_SATELLITE'') then [Reboot 120] else []) @
       [Run ''katello-service stop'' False] @
       (if environ w ''TO_VERSION'' = Some ''6.1''
        then [Run ''service-wait mongod start'' False] else []) @
       [(if environ w ''TO_VERSION'' = Some ''6.1''
         then Run ''katello-installer --upgrade'' False
         else Run ''satellite-installer --scenario satellite --upgrade'' False),
        Run (''hammer -u admin -p '' @
             fmt (if pw = None then Some (environ_get w ''ADMIN_PASSWORD'' ''changeme'') else pw) @
             '' ping'') True,
        Run ''katello-service status'' True]"
  by (auto simp: hub_plan_def Let_def plan_simps)

lemma hub_events_invalid:
  "environ w ''TO_VERSION'' \<notin> {Some ''6.1'', Some ''6.2''} \<Longrightarrow>
   events (hub_plan w host pw) = []"
  by (simp add: hub_plan_def Let_def)

lemma w_hub_trace:
  "trace (snd (satellite6_upgrade w_hub (Some ''sat.example.com'') None s0)) =
     map (Pair (Some ''sat.example.com''))
       [SetYumDebugLevel,
        Run ''rm -rf /etc/yum.repos.d/rhel-{optional,released}.repo'' False,
        UpdatePackages True,
        DistroInfo,
        DisableRepos ''*'' True,
        EnableRepos ''rhel-7-server-rpms'',
        EnableRepos ''rhel-server-rhscl-7-rpms'',
        EnableRepos ''rhel-7-server-satellite-6.2-rpms'',
        Run ''katello-service stop'' False,
        Run ''yum clean all'' True,
        UpdatePackages False,
        Run ''katello-service stop'' False]"
  unfolding satellite6_upgrade_exec exec_trace
  by (simp add: hub_plan_def w_hub_def s0_def Let_def)

theorem phase_failure_policy_witness:
  "length (trace s0) \<le> 11 \<and>
   11 < length (trace (snd (satellite6_upgrade w_hub (Some ''sat.example.com'') None s0))) \<and>
   fails w_hub 11 \<and>
   \<not> tolerant (snd (trace (snd (satellite6_upgrade w_hub (Some ''sat.example.com'') None s0)) ! 11)) \<and>
   length (trace (snd (satellite6_upgrade w_hub (Some ''sat.example.com'') None s0))) = 12 \<and>
   fst (satellite6_upgrade w_hub (Some ''sat.example.com'') None s0) = Inl FabricAbort \<and>
   length (trace s0) \<le> 9 \<and> fails w_hub 9 \<and>
   tolerant (snd (trace (snd (satellite6_upgrade w_hub (Some ''sat.example.com'') None s0)) ! 9)) \<and>
   satellite6_upgrade (w_hub\<lparr>fails := (fails w_hub)(9 := False)\<rparr>) (Some ''sat.example.com'') None s0
     = satellite6_upgrade w_hub (Some ''sat.example.com'') None s0"
proof -
  have a: "length (trace s0) \<le> 11" "length (trace s0) \<le> 9" by (simp_all add: s0_def)
  have b: "11 < length (trace (snd (satellite6_upgrade w_hub (Some ''sat.example.com'') None s0)))"
    "9 < length (trace (snd (satellite6_upgrade w_hub (Some ''sat.example.com'') None s0)))"
    by (simp_all add: w_hub_trace)
  have c: "fails w_hub 11" "fails w_hub 9" by (simp_all add: w_hub_def)
  have d: "\<not> tolerant (snd (trace (snd (satellite6_upgrade w_hub (Some ''sat.example.com'') None s0)) ! 11))"
    "tolerant (snd (trace (snd (satellite6_upgrade w_hub (Some ''sat.example.com'') None s0)) ! 9))"
    by (simp_all add: w_hub_trace)
  from phase_failure_policy [of satellite6_upgrade s0 11 w_hub "Some ''sat.example.com''" None]
    phase_failure_policy [of satellite6_upgrade s0 9 w_hub "Some ''sat.example.com''" None]
    a b c d
  show ?thesis by simp
qed

lemma hub_ops_events:
  "environ w ''TO_VERSION'' \<in> {Some ''6.1'', Some ''6.2''} \<Longrightarrow>
   map snd (events (hub_plan w host pw)) = hub_ops w host pw"
  by (simp add: hub_ops_valid hub_ops_def)

lemma capsule_pre_final: "final (capsule_pre w host) = Inr ()"
  by (simp add: capsule_pre_def Let_def plan_simps)

lemma capsule_pre_events:
  "map snd (events (capsule_pre w host)) = capsule_pre_ops w host"
  by (simp add: capsule_pre_def capsule_pre_ops_def Let_def plan_simps)

lemma capsule_post_events:
  "map snd (events (capsule_post w host ch)) = capsule_post_ops w ch"
  by (simp add: capsule_post_def capsule_post_ops_def Let_def plan_simps)

lemma capsule_events_valid:
  "environ w ''FROM_VERSION'' \<in> {Some ''6.1'', Some ''6.0''} \<Longrightarrow>
   environ w ''TO_VERSION'' \<in> {Some ''6.1'', Some ''6.2''} \<Longrightarrow>
   events (capsule_plan w host sh ch) =
     events (capsule_pre w host) @
     [(sh, GenerateCapsuleCerts ch True), (sh, Run (scp_certs_cmd ch) False)] @
     events (capsule_post w host ch)"
  by (auto simp: capsule_plan_def events_append capsule_pre_final)

lemma capsule_events_invalid:
  "environ w ''FROM_VERSION'' \<notin> {Some ''6.1'', Some ''6.0''} \<or>
   environ w ''TO_VERSION'' \<notin> {Some ''6.1'', Some ''6.2''} \<Longrightarrow>
   events (capsule_plan w host sh ch) = []"
  by (auto simp: capsule_plan_def)

lemma capsule_ops_events:
  "environ w ''FROM_VERSION'' \<in> {Some ''6.1'', Some ''6.0''} \<Longrightarrow>
   environ w ''TO_VERSION'' \<in> {Some ''6.1'', Some ''6.2''} \<Longrightarrow>
   map snd (events (capsule_plan w host sh ch)) = capsule_ops w host ch"
  by (simp add: capsule_events_valid capsule_ops_def capsule_pre_events capsule_post_events)

lemma hub_new: "new_events (satellite6_upgrade w host pw) s =
    issued (fails w) (length (trace s)) (events (hub_plan w host pw))"
  by (simp add: satellite6_upgrade_exec new_events_exec)

lemma capsule_new: "new_events (satellite6_capsule_upgrade w host pw) s =
    issued (fails w) (length (trace s))
      (events (capsule_plan w host (env_get (env s) ''satellite_host'')
                                   (env_get (env s) ''capsule_host'')))"
  by (simp add: satellite6_capsule_upgrade_exec new_events_exec_env)

lemma hub_new_sub:
  "x \<in> set (map snd (new_events (satellite6_upgrade w host pw) s)) \<Longrightarrow>
   environ w ''TO_VERSION'' \<in> {Some ''6.1'', Some ''6.2''} \<and>
   x \<in> set (hub_ops w host pw)"
proof -
  assume x: "x \<in> set (map snd (new_events (satellite6_upgrade w host pw) s))"
  then have m: "x \<in> set (map snd (events (hub_plan w host pw)))"
    using issued_set [of "fails w" "length (trace s)" "events (hub_plan w host pw)"]
    by (auto simp: hub_new)
  then have "events (hub_plan w host pw) \<noteq> []" by auto
  with hub_events_invalid [of w host pw] have v: "environ w ''TO_VERSION'' \<in> {Some ''6.1'', Some ''6.2''}"
    by blast
  from m show ?thesis unfolding hub_ops_events [OF v] using v by simp
qed

lemma capsule_new_sub:
  "x \<in> set (map snd (new_events (satellite6_capsule_upgrade w host pw) s)) \<Longrightarrow>
   environ w ''FROM_VERSION'' \<in> {Some ''6.1'', Some ''6.0''} \<and>
   environ w ''TO_VERSION'' \<in> {Some ''6.1'', Some ''6.2''} \<and>
   x \<in> set (capsule_ops w host (env_get (env s) ''capsule_host''))"
proof -
  let ?p = "capsule_plan w host (env_get (env s) ''satellite_host'')
                                   (env_get (env s) ''capsule_host'')"
  assume x: "x \<in> set (map snd (new_events (satellite6_capsule_upgrade w host pw) s))"
  then have m: "x \<in> set (map snd (events ?p))"
    using issued_set [of "fails w" "length (trace s)" "events ?p"]
    by (auto simp: capsule_new)
  then have "events ?p \<noteq> []" by auto
  with capsule_events_invalid [of w host] have v: "environ w ''FROM_VERSION'' \<in> {Some ''6.1'', Some ''6.0''}"
    "environ w ''TO_VERSION'' \<in> {Some ''6.1'', Some ''6.2''}" by blast+
  from m show ?thesis unfolding capsule_ops_events [OF v] using v by simp
qed

lemma hub_new_complete:
  "\<forall>k. \<not> fails w k \<Longrightarrow> environ w ''TO_VERSION'' \<in> {Some ''6.1'', Some ''6.2''} \<Longrightarrow>
   map snd (new_events (satellite6_upgrade w host pw) s) = hub_ops w host pw"
  by (simp add: hub_new issued_no_fail hub_ops_events)

lemma capsule_new_complete:
  "\<forall>k. \<not> fails w k \<Longrightarrow> environ w ''FROM_VERSION'' \<in> {Some ''6.1'', Some ''6.0''} \<Longrightarrow>
   environ w ''TO_VERSION'' \<in> {Some ''6.1'', Some ''6.2''} \<Longrightarrow>
   map snd (new_events (satellite6_capsule_upgrade w host pw) s) =
     capsule_ops w host (env_get (env s) ''capsule_host'')"
  by (simp add: capsule_new issued_no_fail capsule_ops_events)

text \<open>
  Claim C7.  In the subordinate workflow the legacy-installer migration (the tolerant
  \<^verbatim>\<open>yum install -y capsule-installer\<close> and the tolerant copy of the saved answer file)
  is issued only when \<^verbatim>\<open>FROM_VERSION\<close> is \<^verbatim>\<open>6.0\<close>.  In a run where nothing fails, the
  two operations are issued, in this order, exactly when \<^verbatim>\<open>FROM_VERSION\<close> is \<^verbatim>\<open>6.0\<close>, and
  they are the only operations whose presence depends on the source version: without
  them, and with the name of the disabled repository adjusted, the run from 6.0 is the
  run from 6.1.
\<close>

theorem legacy_migration_gated_on_source_version:
  "(x \<in> set legacy_migration \<and>
    x \<in> set (map snd (new_events (satellite6_capsule_upgrade w host pw) s))
      \<longrightarrow> environ w ''FROM_VERSION'' = Some ''6.0'')
 \<and> ((\<forall>k. \<not> fails w k) \<and> environ w ''FROM_VERSION'' \<in> {Some ''6.1'', Some ''6.0''} \<and>
     environ w ''TO_VERSION'' \<in> {Some ''6.1'', Some ''6.2''}
      \<longrightarrow> filter (\<lambda>x. x \<in> set legacy_migration)
            (map snd (new_events (satellite6_capsule_upgrade w host pw) s)) =
          (if environ w ''FROM_VERSION'' = Some ''6.0'' then legacy_migration else []))
 \<and> ((\<forall>k. \<not> fails w k) \<and> environ w ''TO_VERSION'' \<in> {Some ''6.1'', Some ''6.2''}
      \<longrightarrow> map (rename_disabled (distro_major w host))
            (filter (\<lambda>x. x \<notin> set legacy_migration)
              (map snd (new_events (satellite6_capsule_upgrade (with_from w ''6.0'') host pw) s))) =
          map snd (new_events (satellite6_capsule_upgrade (with_from w ''6.1'') host pw) s))"
proof (intro conjI impI)
  assume "x \<in> set legacy_migration \<and>
    x \<in> set (map snd (new_events (satellite6_capsule_upgrade w host pw) s))"
  then have x: "x \<in> set legacy_migration"
    and "x \<in> set (map snd (new_events (satellite6_capsule_upgrade w host pw) s))" by simp_all
  from capsule_new_sub [OF this(2)] x show "environ w ''FROM_VERSION'' = Some ''6.0''"
    by (auto simp: legacy_migration_def capsule_ops_def capsule_pre_ops_def
        capsule_post_ops_def capsule_installer_cmd_def stop_services_cmd_def scp_certs_cmd_def
        split: if_splits)
next
  assume "(\<forall>k. \<not> fails w k) \<and> environ w ''FROM_VERSION'' \<in> {Some ''6.1'', Some ''6.0''} \<and>
     environ w ''TO_VERSION'' \<in> {Some ''6.1'', Some ''6.2''}"
  then show "filter (\<lambda>x. x \<in> set legacy_migration)
            (map snd (new_events (satellite6_capsule_upgrade w host pw) s)) =
          (if environ w ''FROM_VERSION'' = Some ''6.0'' then legacy_migration else [])"
    by (auto simp: capsule_new_complete legacy_migration_def capsule_ops_def capsule_pre_ops_def
        capsule_post_ops_def capsule_installer_cmd_def stop_services_cmd_def scp_certs_cmd_def)
next
  assume a: "(\<forall>k. \<not> fails w k) \<and> environ w ''TO_VERSION'' \<in> {Some ''6.1'', Some ''6.2''}"
  have f: "\<forall>k. \<not> fails (with_from w v) k" for v using a by (simp add: with_from_def)
  have t: "environ (with_from w v) ''TO_VERSION'' \<in> {Some ''6.1'', Some ''6.2''}" for v
    using a by (simp add: with_from_def)
  have v0: "environ (with_from w ''6.0'') ''FROM_VERSION'' \<in> {Some ''6.1'', Some ''6.0''}"
    and v1: "environ (with_from w ''6.1'') ''FROM_VERSION'' \<in> {Some ''6.1'', Some ''6.0''}"
    by (simp_all add: with_from_def)
  show "map (rename_disabled (distro_major w host))
            (filter (\<lambda>x. x \<notin> set legacy_migration)
              (map snd (new_events (satellite6_capsule_upgrade (with_from w ''6.0'') host pw) s))) =
          map snd (new_events (satellite6_capsule_upgrade (with_from w ''6.1'') host pw) s)"
    unfolding capsule_new_complete [OF f v0 t] capsule_new_complete [OF f v1 t]
    by (simp add: capsule_ops_def capsule_pre_ops_def capsule_post_ops_def with_from_def
        rename_disabled_def legacy_migration_def capsule_installer_cmd_def
        stop_services_cmd_def scp_certs_cmd_def capsule_repo_def)
qed

text \<open>
  Claim C4.  The installer that a workflow runs is decided by \<^verbatim>\<open>TO_VERSION\<close> alone:
  \<^verbatim>\<open>katello-installer --upgrade\<close> (hub) and \<^verbatim>\<open>capsule-installer\<close> (subordinate) are run
  only for \<^verbatim>\<open>6.1\<close>, \<^verbatim>\<open>satellite-installer\<close> with its \<^verbatim>\<open>--scenario\<close> flag only for
  \<^verbatim>\<open>6.2\<close>, and in a run where nothing fails the installer of the target version is run.
\<close>

theorem installer_keyed_on_target_version:
  "(Run ''katello-installer --upgrade'' b
      \<in> set (map snd (new_events (satellite6_upgrade w host pw) s))
      \<longrightarrow> environ w ''TO_VERSION'' = Some ''6.1'')
 \<and> (Run ''satellite-installer --scenario satellite --upgrade'' b
      \<in> set (map snd (new_events (satellite6_upgrade w host pw) s))
      \<longrightarrow> environ w ''TO_VERSION'' = Some ''6.2'')
 \<and> (Run (''capsule-installer --upgrade --certs-tar /home/'' @ c @ ''-certs.tar'') b
      \<in> set (map snd (new_events (satellite6_capsule_upgrade w host pw) s))
      \<longrightarrow> environ w ''TO_VERSION'' = Some ''6.1'')
 \<and> (Run (''satellite-installer --scenario capsule --upgrade --certs-tar /home/'' @ c @
           ''-certs.tar'') b
      \<in> set (map snd (new_events (satellite6_capsule_upgrade w host pw) s))
      \<longrightarrow> environ w ''TO_VERSION'' = Some ''6.2'')
 \<and> ((\<forall>k. \<not> fails w k) \<and> environ w ''TO_VERSION'' \<in> {Some ''6.1'', Some ''6.2''}
      \<longrightarrow> Run (if environ w ''TO_VERSION'' = Some ''6.1''
               then ''katello-installer --upgrade''
               else ''satellite-installer --scenario satellite --upgrade'') False
            \<in> set (map snd (new_events (satellite6_upgrade w host pw) s)))
 \<and> ((\<forall>k. \<not> fails w k) \<and> environ w ''FROM_VERSION'' \<in> {Some ''6.1'', Some ''6.0''} \<and>
     environ w ''TO_VERSION'' \<in> {Some ''6.1'', Some ''6.2''}
      \<longrightarrow> Run (capsule_installer_cmd (environ w ''TO_VERSION'')
                 (env_get (env s) ''capsule_host'')) False
            \<in> set (map snd (new_events (satellite6_capsule_upgrade w host pw) s)))"
proof (intro conjI impI)
  assume "Run ''katello-installer --upgrade'' b
      \<in> set (map snd (new_events (satellite6_upgrade w host pw) s))"
  from hub_new_sub [OF this] show "environ w ''TO_VERSION'' = Some ''6.1''"
    by (auto simp: hub_ops_def split: if_splits)
next
  assume "Run ''satellite-installer --scenario satellite --upgrade'' b
      \<in> set (map snd (new_events (satellite6_upgrade w host pw) s))"
  from hub_new_sub [OF this] show "environ w ''TO_VERSION'' = Some ''6.2''"
    by (auto simp: hub_ops_def split: if_splits)
next
  assume "Run (''capsule-installer --upgrade --certs-tar /home/'' @ c @ ''-certs.tar'') b
      \<in> set (map snd (new_events (satellite6_capsule_upgrade w host pw) s))"
  from capsule_new_sub [OF this] show "environ w ''TO_VERSION'' = Some ''6.1''"
    by (auto simp: capsule_ops_def capsule_pre_ops_def capsule_post_ops_def
        capsule_installer_cmd_def stop_services_cmd_def scp_certs_cmd_def split: if_splits)
next
  assume "Run (''satellite-installer --scenario capsule --upgrade --certs-tar /home/'' @ c @
           ''-certs.tar'') b
      \<in> set (map snd (new_events (satellite6_capsule_upgrade w host pw) s))"
  from capsule_new_sub [OF this] show "environ w ''TO_VERSION'' = Some ''6.2''"
    by (auto simp: capsule_ops_def capsule_pre_ops_def capsule_post_ops_def
        capsule_installer_cmd_def stop_services_cmd_def scp_certs_cmd_def split: if_splits)
next
  assume "(\<forall>k. \<not> fails w k) \<and> environ w ''TO_VERSION'' \<in> {Some ''6.1'', Some ''6.2''}"
  then show "Run (if environ w ''TO_VERSION'' = Some ''6.1''
               then ''katello-installer --upgrade''
               else ''satellite-installer --scenario satellite --upgrade'') False
            \<in> set (map snd (new_events (satellite6_upgrade w host pw) s))"
    by (simp add: hub_new_complete hub_ops_def)
next
  assume "(\<forall>k. \<not> fails w k) \<and> environ w ''FROM_VERSION'' \<in> {Some ''6.1'', Some ''6.0''} \<and>
     environ w ''TO_VERSION'' \<in> {Some ''6.1'', Some ''6.2''}"
  then show "Run (capsule_installer_cmd (environ w ''TO_VERSION'')
                 (env_get (env s) ''capsule_host'')) False
            \<in> set (map snd (new_events (satellite6_capsule_upgrade w host pw) s))"
    by (simp add: capsule_new_complete capsule_ops_def capsule_post_ops_def)
qed

lemma w_cap60_ops:
  "map snd (new_events (satellite6_capsule_upgrade w_cap60 (Some ''cap.example.com'') None) s_cap) =
     [DistroInfo,
      EnableRepos ''rhel-7-server-satellite-capsule-6.1-rpms'',
      DisableRepos ''rhel-7-server-satellite-capsule-6.0-rpms'' False,
      Run stop_services_cmd False,
      Run ''yum clean all'' True,
      UpdatePackages False,
      Run ''yum install -y capsule-installer'' True,
      Run (''cp /etc/katello-installer/answers.capsule-installer.yaml.rpmsave '' @
           ''/etc/capsule-installer/answers.capsule-installer.yaml'') True,
      GenerateCapsuleCerts (Some ''cap.example.com'') True,
      Run (scp_certs_cmd (Some ''cap.example.com'')) False,
      Run stop_services_cmd False,
      Run ''capsule-installer --upgrade --certs-tar /home/cap.example.com-certs.tar'' False,
      Run ''katello-service status'' True]"
proof -
  have f: "\<forall>k. \<not> fails w_cap60 k" by (simp add: w_cap60_def)
  have v: "environ w_cap60 ''FROM_VERSION'' \<in> {Some ''6.1'', Some ''6.0''}"
    "environ w_cap60 ''TO_VERSION'' \<in> {Some ''6.1'', Some ''6.2''}"
    by (simp_all add: w_cap60_def)
  show ?thesis
    unfolding capsule_new_complete [OF f v]
    by (simp add: capsule_ops_def capsule_pre_ops_def capsule_post_ops_def w_cap60_def
        s_cap_def env_get_def capsule_repo_def capsule_installer_cmd_def)
qed

theorem legacy_migration_gated_on_source_version_witness:
  "Run ''yum install -y capsule-installer'' True \<in> set legacy_migration \<and>
   Run ''yum install -y capsule-installer'' True
     \<in> set (map snd (new_events
           (satellite6_capsule_upgrade w_cap60 (Some ''cap.example.com'') None) s_cap)) \<and>
   environ w_cap60 ''FROM_VERSION'' = Some ''6.0''"
proof -
  have a: "Run ''yum install -y capsule-installer'' True \<in> set legacy_migration"
    by (simp add: legacy_migration_def)
  have b: "Run ''yum install -y capsule-installer'' True
     \<in> set (map snd (new_events
           (satellite6_capsule_upgrade w_cap60 (Some ''cap.example.com'') None) s_cap))"
    unfolding w_cap60_ops by simp
  from legacy_migration_gated_on_source_version
    [of "Run ''yum install -y capsule-installer'' True" w_cap60 "Some ''cap.example.com''"
      None s_cap] a b
  show ?thesis by blast
qed

lemma w_hub_ok_ops:
  "map snd (new_events (satellite6_upgrade w_hub_ok (Some ''sat.example.com'') None) s0) =
       [SetYumDebugLevel,
        Run ''rm -rf /etc/yum.repos.d/rhel-{optional,released}.repo'' False,
        UpdatePackages True,
        DistroInfo,
        DisableRepos ''*'' True,
        EnableRepos ''rhel-7-server-rpms'',
        EnableRepos ''rhel-server-rhscl-7-rpms'',
        EnableRepos ''rhel-7-server-satellite-6.2-rpms'',
        Run ''katello-service stop'' False,
        Run ''yum clean all'' True,
        UpdatePackages False,
        Run ''katello-service stop'' False,
        Run ''satellite-installer --scenario satellite --upgrade'' False,
        Run ''hammer -u admin -p changeme ping'' True,
        Run ''katello-service status'' True]"
proof -
  have f: "\<forall>k. \<not> fails w_hub_ok k" by (simp add: w_hub_ok_def)
  have v: "environ w_hub_ok ''TO_VERSION'' \<in> {Some ''6.1'', Some ''6.2''}"
    by (simp add: w_hub_ok_def)
  show ?thesis
    unfolding hub_new_complete [OF f v]
    by (simp add: hub_ops_def w_hub_ok_def environ_get_def)
qed

theorem installer_keyed_on_target_version_witness:
  "Run ''satellite-installer --scenario satellite --upgrade'' False
     \<in> set (map snd (new_events (satellite6_upgrade w_hub_ok (Some ''sat.example.com'') None) s0)) \<and>
   environ w_hub_ok ''TO_VERSION'' = Some ''6.2'' \<and>
   Run (''capsule-installer --upgrade --certs-tar /home/'' @ ''cap.example.com'' @ ''-certs.tar'')
       False
     \<in> set (map snd (new_events
           (satellite6_capsule_upgrade w_cap60 (Some ''cap.example.com'') None) s_cap)) \<and>
   environ w_cap60 ''TO_VERSION'' = Some ''6.1''"
proof -
  have a: "Run ''satellite-installer --scenario satellite --upgrade'' False
     \<in> set (map snd (new_events (satellite6_upgrade w_hub_ok (Some ''sat.example.com'') None) s0))"
    unfolding w_hub_ok_ops by simp
  have b: "Run (''capsule-installer --upgrade --certs-tar /home/'' @ ''cap.example.com'' @ ''-certs.tar'')
       False
     \<in> set (map snd (new_events
           (satellite6_capsule_upgrade w_cap60 (Some ''cap.example.com'') None) s_cap))"
    unfolding w_cap60_ops by simp
  from installer_keyed_on_target_version
    [of False w_hub_ok "Some ''sat.example.com''" None s0 "''cap.example.com''"] a
  have c: "environ w_hub_ok ''TO_VERSION'' = Some ''6.2''" by blast
  from installer_keyed_on_target_version
    [of False w_cap60 "Some ''cap.example.com''" None s_cap "''cap.example.com''"] b
  have d: "environ w_cap60 ''TO_VERSION'' = Some ''6.1''" by blast
  from a b c d show ?thesis by blast
qed












subsection \<open>Repository configuration\<close>

lemma vendor_not_rhscl:
  "''rhel-'' @ m @ ''-server-satellite-'' @ v @ ''-rpms'' \<noteq> ''rhel-server-rhscl-'' @ m @ ''-rpms''"
proof
  assume "''rhel-'' @ m @ ''-server-satellite-'' @ v @ ''-rpms'' = ''rhel-server-rhscl-'' @ m @ ''-rpms''"
  then have "length (''rhel-'' @ m @ ''-server-satellite-'' @ v @ ''-rpms'') =
      length (''rhel-server-rhscl-'' @ m @ ''-rpms'')" by (rule arg_cong)
  then show False by simp
qed


lemma w_cap_url_ops:
  "map snd (new_events (satellite6_capsule_upgrade w_cap_url (Some ''cap.example.com'') None) s_cap) =
     [DistroInfo,
      DisableRepos ''rhel-7-server-satellite-capsule-6.1-rpms'' False,
      Run stop_services_cmd False,
      Run ''yum clean all'' True,
      UpdatePackages False,
      GenerateCapsuleCerts (Some ''cap.example.com'') True,
      Run (scp_certs_cmd (Some ''cap.example.com'')) False,
      Run stop_services_cmd False,
      Run ''satellite-installer --scenario capsule --upgrade --certs-tar /home/cap.example.com-certs.tar'' False,
      Run ''katello-service status'' True]"
proof -
  have f: "\<forall>k. \<not> fails w_cap_url k" by (simp add: w_cap_url_def)
  have v: "environ w_cap_url ''FROM_VERSION'' \<in> {Some ''6.1'', Some ''6.0''}"
    "environ w_cap_url ''TO_VERSION'' \<in> {Some ''6.1'', Some ''6.2''}"
    by (simp_all add: w_cap_url_def)
  show ?thesis
    unfolding capsule_new_complete [OF f v]
    by (simp add: capsule_ops_def capsule_pre_ops_def capsule_post_ops_def w_cap_url_def
        s_cap_def env_get_def capsule_repo_def capsule_installer_cmd_def)
qed




text \<open>
  Claim C6, as the spec states it, fails on the subordinate workflow: in a complete
  subordinate upgrade with \<^verbatim>\<open>CAPSULE_URL\<close> set, the only repository operation is the
  disabling of the capsule repository of the source version.  No repository file is
  written.
\<close>

theorem subordinate_no_repo_file_counterexample:
  "filter is_repo_op
     (map snd (new_events (satellite6_capsule_upgrade w_cap_url (Some ''cap.example.com'') None)
        s_cap)) =
     [DisableRepos ''rhel-7-server-satellite-capsule-6.1-rpms'' False]"
  unfolding w_cap_url_ops by simp

text \<open>
  Claim C6, amended.  Hub: with \<^verbatim>\<open>BASE_URL\<close> unset no file is put and, when nothing fails,
  the vendor repository of the target version is enabled; with \<^verbatim>\<open>BASE_URL\<close> set the vendor
  repository is never enabled and, when nothing fails, the file \<^verbatim>\<open>[sat6]\<close>,
  \<^verbatim>\<open>name=satellite 6\<close>, \<^verbatim>\<open>baseurl=<BASE_URL>\<close>, \<^verbatim>\<open>enabled=1\<close>, \<^verbatim>\<open>gpgcheck=0\<close> is put at
  \<^verbatim>\<open>/etc/yum.repos.d/sat6.repo\<close>.  Subordinate: no file is ever put; with \<^verbatim>\<open>CAPSULE_URL\<close>
  unset and nothing failing the vendor capsule repository of the target version is
  enabled; with \<^verbatim>\<open>CAPSULE_URL\<close> set it is never enabled.
\<close>

theorem vendor_repository_or_custom_file:
  "(environ w ''BASE_URL'' = None \<longrightarrow>
      Put content path \<notin> set (map snd (new_events (satellite6_upgrade w host pw) s)) \<and>
      ((\<forall>k. \<not> fails w k) \<and> environ w ''TO_VERSION'' \<in> {Some ''6.1'', Some ''6.2''} \<longrightarrow>
        EnableRepos (''rhel-'' @ distro_major w host @ ''-server-satellite-'' @
                     fmt (environ w ''TO_VERSION'') @ ''-rpms'')
          \<in> set (map snd (new_events (satellite6_upgrade w host pw) s))))
 \<and> (environ w ''BASE_URL'' = Some u \<longrightarrow>
      EnableRepos (''rhel-'' @ distro_major w host @ ''-server-satellite-'' @
                   fmt (environ w ''TO_VERSION'') @ ''-rpms'')
        \<notin> set (map snd (new_events (satellite6_upgrade w host pw) s)) \<and>
      ((\<forall>k. \<not> fails w k) \<and> environ w ''TO_VERSION'' \<in> {Some ''6.1'', Some ''6.2''} \<longrightarrow>
        Put (''[sat6]'' @ [CHR 0x0A] @ ''name=satellite 6'' @ [CHR 0x0A] @
             ''baseurl='' @ u @ [CHR 0x0A] @ ''enabled=1'' @ [CHR 0x0A] @
             ''gpgcheck=0'' @ [CHR 0x0A])
            ''/etc/yum.repos.d/sat6.repo''
          \<in> set (map snd (new_events (satellite6_upgrade w host pw) s))))
 \<and> Put content path \<notin> set (map snd (new_events (satellite6_capsule_upgrade w host pw) s))
 \<and> (environ w ''CAPSULE_URL'' = None \<and> (\<forall>k. \<not> fails w k) \<and>
     environ w ''FROM_VERSION'' \<in> {Some ''6.1'', Some ''6.0''} \<and>
     environ w ''TO_VERSION'' \<in> {Some ''6.1'', Some ''6.2''} \<longrightarrow>
      EnableRepos (capsule_repo (distro_major w host) (environ w ''TO_VERSION''))
        \<in> set (map snd (new_events (satellite6_capsule_upgrade w host pw) s)))
 \<and> (environ w ''CAPSULE_URL'' \<noteq> None \<longrightarrow>
      EnableRepos (capsule_repo (distro_major w host) (environ w ''TO_VERSION''))
        \<notin> set (map snd (new_events (satellite6_capsule_upgrade w host pw) s)))"
proof (intro conjI impI)
  assume b: "environ w ''BASE_URL'' = None"
  show "Put content path \<notin> set (map snd (new_events (satellite6_upgrade w host pw) s))"
  proof
    assume "Put content path \<in> set (map snd (new_events (satellite6_upgrade w host pw) s))"
    from hub_new_sub [OF this] b show False
      by (auto simp: hub_ops_def split: if_splits)
  qed
next
  assume "environ w ''BASE_URL'' = None"
    and "(\<forall>k. \<not> fails w k) \<and> environ w ''TO_VERSION'' \<in> {Some ''6.1'', Some ''6.2''}"
  then show "EnableRepos (''rhel-'' @ distro_major w host @ ''-server-satellite-'' @
                     fmt (environ w ''TO_VERSION'') @ ''-rpms'')
          \<in> set (map snd (new_events (satellite6_upgrade w host pw) s))"
    by (simp add: hub_new_complete hub_ops_def)
next
  assume b: "environ w ''BASE_URL'' = Some u"
  show "EnableRepos (''rhel-'' @ distro_major w host @ ''-server-satellite-'' @
                   fmt (environ w ''TO_VERSION'') @ ''-rpms'')
        \<notin> set (map snd (new_events (satellite6_upgrade w host pw) s))"
  proof
    assume "EnableRepos (''rhel-'' @ distro_major w host @ ''-server-satellite-'' @
                   fmt (environ w ''TO_VERSION'') @ ''-rpms'')
        \<in> set (map snd (new_events (satellite6_upgrade w host pw) s))"
    from hub_new_sub [OF this] b
      vendor_not_rhscl [of "distro_major w host" "fmt (environ w ''TO_VERSION'')"]
    show False
      by (auto simp: hub_ops_def split: if_splits)
  qed
next
  assume "environ w ''BASE_URL'' = Some u"
    and "(\<forall>k. \<not> fails w k) \<and> environ w ''TO_VERSION'' \<in> {Some ''6.1'', Some ''6.2''}"
  then show "Put (''[sat6]'' @ [CHR 0x0A] @ ''name=satellite 6'' @ [CHR 0x0A] @
             ''baseurl='' @ u @ [CHR 0x0A] @ ''enabled=1'' @ [CHR 0x0A] @
             ''gpgcheck=0'' @ [CHR 0x0A])
            ''/etc/yum.repos.d/sat6.repo''
          \<in> set (map snd (new_events (satellite6_upgrade w host pw) s))"
    by (simp add: hub_new_complete hub_ops_def satellite_repo_def)
next
  show "Put content path \<notin> set (map snd (new_events (satellite6_capsule_upgrade w host pw) s))"
  proof
    assume "Put content path
      \<in> set (map snd (new_events (satellite6_capsule_upgrade w host pw) s))"
    from capsule_new_sub [OF this] show False
      by (auto simp: capsule_ops_def capsule_pre_ops_def capsule_post_ops_def split: if_splits)
  qed
next
  assume "environ w ''CAPSULE_URL'' = None \<and> (\<forall>k. \<not> fails w k) \<and>
     environ w ''FROM_VERSION'' \<in> {Some ''6.1'', Some ''6.0''} \<and>
     environ w ''TO_VERSION'' \<in> {Some ''6.1'', Some ''6.2''}"
  then show "EnableRepos (capsule_repo (distro_major w host) (environ w ''TO_VERSION''))
        \<in> set (map snd (new_events (satellite6_capsule_upgrade w host pw) s))"
    by (simp add: capsule_new_complete capsule_ops_def capsule_pre_ops_def)
next
  assume u: "environ w ''CAPSULE_URL'' \<noteq> None"
  show "EnableRepos (capsule_repo (distro_major w host) (environ w ''TO_VERSION''))
        \<notin> set (map snd (new_events (satellite6_capsule_upgrade w host pw) s))"
  proof
    assume "EnableRepos (capsule_repo (distro_major w host) (environ w ''TO_VERSION''))
        \<in> set (map snd (new_events (satellite6_capsule_upgrade w host pw) s))"
    from capsule_new_sub [OF this] u show False
      by (auto simp: capsule_ops_def capsule_pre_ops_def capsule_post_ops_def split: if_splits)
  qed
qed

theorem vendor_repository_or_custom_file_witness:
  "environ w_hub_ok ''BASE_URL'' = None \<and>
   (\<forall>k. \<not> fails w_hub_ok k) \<and> environ w_hub_ok ''TO_VERSION'' \<in> {Some ''6.1'', Some ''6.2''} \<and>
   EnableRepos (''rhel-'' @ distro_major w_hub_ok (Some ''sat.example.com'') @
                ''-server-satellite-'' @ fmt (environ w_hub_ok ''TO_VERSION'') @ ''-rpms'')
     \<in> set (map snd (new_events (satellite6_upgrade w_hub_ok (Some ''sat.example.com'') None) s0)) \<and>
   environ w_cap_url ''CAPSULE_URL'' \<noteq> None \<and>
   EnableRepos (capsule_repo (distro_major w_cap_url (Some ''cap.example.com''))
                  (environ w_cap_url ''TO_VERSION''))
     \<notin> set (map snd (new_events
           (satellite6_capsule_upgrade w_cap_url (Some ''cap.example.com'') None) s_cap))"
proof -
  have b: "environ w_hub_ok ''BASE_URL'' = None" by (simp add: w_hub_ok_def)
  have f: "\<forall>k. \<not> fails w_hub_ok k" by (simp add: w_hub_ok_def)
  have v: "environ w_hub_ok ''TO_VERSION'' \<in> {Some ''6.1'', Some ''6.2''}"
    by (simp add: w_hub_ok_def)
  have u: "environ w_cap_url ''CAPSULE_URL'' \<noteq> None" by (simp add: w_cap_url_def)
  from vendor_repository_or_custom_file
    [of w_hub_ok "[]" "[]" "Some ''sat.example.com''" None s0 "[]"] b f v
  have 1: "EnableRepos (''rhel-'' @ distro_major w_hub_ok (Some ''sat.example.com'') @
                ''-server-satellite-'' @ fmt (environ w_hub_ok ''TO_VERSION'') @ ''-rpms'')
     \<in> set (map snd (new_events (satellite6_upgrade w_hub_ok (Some ''sat.example.com'') None) s0))"
    by blast
  from vendor_repository_or_custom_file
    [of w_cap_url "[]" "[]" "Some ''cap.example.com''" None s_cap "[]"] u
  have 2: "EnableRepos (capsule_repo (distro_major w_cap_url (Some ''cap.example.com''))
                  (environ w_cap_url ''TO_VERSION''))
     \<notin> set (map snd (new_events
           (satellite6_capsule_upgrade w_cap_url (Some ''cap.example.com'') None) s_cap))"
    by blast
  from b f v u 1 2 show ?thesis by blast
qed

subsection \<open>The orchestration is a plan\<close>

lemma plan_env_append: "plan_env (p @ q) e = plan_env q (plan_env p e)"
proof (induction p arbitrary: e)
  case Nil
  show ?case by simp
next
  case (Cons i p)
  then show ?case by (cases i) (simp_all add: fun_upd_def)
qed

lemma plan_env_hub [simp]: "plan_env (hub_plan w host pw) e = e"
  by (simp add: hub_plan_def Let_def plan_env_append)

lemma thn_ret_right [simp]: "thn m (ret ()) = m"
  by (auto simp: thn_def bnd_def ret_def fun_eq_iff split: prod.splits sum.splits)

lemma tail_exec:
  "seqM [
       satellite6_upgrade w sat_host None,
       foreman_debug w sat_host ''satellite'',
       whenM (product = ''capsule'')
         (bnd (read_var ''cap_host'' cap_host) (\<lambda>cap_host.
          seqM [
            py_print ([CHR 0x0A] @ ''Running Capsule Upgrade ..........''),
            satellite6_capsule_upgrade w cap_host None,
            foreman_debug w cap_host ''capsule'']))
     ] = exec_env w (product_tail w product sat_host cap_host)"
proof (cases "product = ''capsule''")
  case False
  have "exec w (hub_plan w sat_host None @ [Do sat_host (ForemanDebug ''satellite'')]) =
      exec_env w (product_tail w product sat_host cap_host)"
    by (simp add: exec_env_def product_tail_def False)
  with False show ?thesis
    by (simp add: satellite6_upgrade_exec to_exec whenM_def ret_exec [where w = w]
        del: exec.simps)
next
  case True
  show ?thesis
  proof (cases cap_host)
    case None
    have "exec w (hub_plan w sat_host None @ [Do sat_host (ForemanDebug ''satellite''),
        Raise (NameError ''cap_host'')]) =
      exec_env w (product_tail w product sat_host cap_host)"
      by (simp add: exec_env_def product_tail_def True None)
    with True None show ?thesis
      by (simp add: satellite6_upgrade_exec to_exec whenM_def raise_exec [where w = w]
          del: exec.simps)
  next
    case (Some c)
    have "thn (exec w (hub_plan w sat_host None @ [Do sat_host (ForemanDebug ''satellite''),
              Say ([CHR 0x0A] @ ''Running Capsule Upgrade ..........'')]))
          (thn (satellite6_capsule_upgrade w c None) (exec w [Do c (ForemanDebug ''capsule'')]))
        = exec_env w (product_tail w product sat_host cap_host)"
      unfolding satellite6_capsule_upgrade_exec thn_exec_env_exec thn_exec_exec_env
      by (simp add: product_tail_def [abs_def] True Some plan_env_append)
    then show ?thesis
      using True Some
      by (simp add: to_exec whenM_def satellite6_upgrade_exec py_print_exec [where w = w]
          thn_assoc [symmetric] del: exec.simps)
  qed
qed

lemmas product_simps = to_exec whenM_def thn_exec_exec_env thn_exec_env_exec

lemma rest_exec:
  "thn (run w sat_host ''katello-service restart'' False)
     (bnd (if product = ''capsule'' then
             bnd (if \<not> truthy (environ w ''CAPSULE_HOSTNAME'') then
                    if \<not> truthy cap_image \<and> \<not> truthy (environ w ''RHEV_CAPSULE'') then
                      thn (py_print
                            (''Please provide either Capsule RHEVM template name or '' @
                             ''Capsule HostName to perform upgrade!''))
                          (sys_exit 1)
                    else
                    bnd (read_var ''version'' version) (\<lambda>version.
                    let cap_instance = ''upgrade_capsule_auto_'' @ fmt version in
                    thn (seqM [
                           delete_rhevm_instance w host cap_instance,
                           py_print ''Turning on Capsule Instance ....'',
                           create_rhevm_instance w host cap_instance cap_image])
                        (ret (environ w ''RHEV_CAPSULE'')))
                  else
                    let cap_host = environ w ''CAPSULE_HOSTNAME'' in
                    thn (env_set ''capsule_host'' cap_host) (ret cap_host))
             (\<lambda>cap_host.
             thn (seqM [
                    copy_ssh_key w host sat_host cap_host,
                    whenM (environ w ''CAPSULE_URL'' \<noteq> None)
                      (sync_capsule_tools_repos_to_upgrade w sat_host)])
                 (ret (Some cap_host)))
           else ret None)
     (\<lambda>cap_host.
     seqM [
       satellite6_upgrade w sat_host None,
       foreman_debug w sat_host ''satellite'',
       whenM (product = ''capsule'')
         (bnd (read_var ''cap_host'' cap_host) (\<lambda>cap_host.
          seqM [
            py_print ([CHR 0x0A] @ ''Running Capsule Upgrade ..........''),
            satellite6_capsule_upgrade w cap_host None,
            foreman_debug w cap_host ''capsule'']))
     ])) = exec_env w (product_rest w host product cap_image version sat_host)"
proof -
  have step: "thn (run w sat_host ''katello-service restart'' False)
     (bnd (if product = ''capsule'' then
             bnd (if \<not> truthy (environ w ''CAPSULE_HOSTNAME'') then
                    if \<not> truthy cap_image \<and> \<not> truthy (environ w ''RHEV_CAPSULE'') then
                      thn (py_print
                            (''Please provide either Capsule RHEVM template name or '' @
                             ''Capsule HostName to perform upgrade!''))
                          (sys_exit 1)
                    else
                    bnd (read_var ''version'' version) (\<lambda>version.
                    let cap_instance = ''upgrade_capsule_auto_'' @ fmt version in
                    thn (seqM [
                           delete_rhevm_instance w host cap_instance,
                           py_print ''Turning on Capsule Instance ....'',
                           create_rhevm_instance w host cap_instance cap_image])
                        (ret (environ w ''RHEV_CAPSULE'')))
                  else
                    let cap_host = environ w ''CAPSULE_HOSTNAME'' in
                    thn (env_set ''capsule_host'' cap_host) (ret cap_host))
             (\<lambda>cap_host.
             thn (seqM [
                    copy_ssh_key w host sat_host cap_host,
                    whenM (environ w ''CAPSULE_URL'' \<noteq> None)
                      (sync_capsule_tools_repos_to_upgrade w sat_host)])
                 (ret (Some cap_host)))
           else ret None)
     (\<lambda>cap_host. exec_env w (product_tail w product sat_host cap_host)))
     = exec_env w (product_rest w host product cap_image version sat_host)"
    (is ?step)
  proof (cases "product = ''capsule''")
    case False
    then show ?step
      by (simp add: product_simps product_rest_def [abs_def] del: exec.simps)
  next
    case True
    note cap = True
    show ?step
    proof (cases "truthy (environ w ''CAPSULE_HOSTNAME'')")
      case True
      with cap show ?step
        by (simp add: product_simps product_rest_def [abs_def] capsule_block_def [abs_def]
            Let_def plan_env_append env_set_exec [where w = w] del: exec.simps)
    next
      case False
      note nohost = False
      show ?step
      proof (cases "\<not> truthy cap_image \<and> \<not> truthy (environ w ''RHEV_CAPSULE'')")
        case True
        with cap nohost show ?step
          by (simp add: product_simps product_rest_def [abs_def] capsule_block_def [abs_def]
              py_print_exec [where w = w] raise_exec [where w = w] exec_env_def del: exec.simps)
      next
        case False
        then have c: "(\<not> truthy cap_image \<and> \<not> truthy (environ w ''RHEV_CAPSULE'')) = False"
          by simp
        show ?step
        proof (cases version)
          case None
          with cap nohost False show ?step
            by (auto simp: product_simps product_rest_def [abs_def] capsule_block_def [abs_def]
                raise_exec [where w = w] exec_env_def simp del: exec.simps)
        next
          case (Some v)
          with cap nohost False show ?step
            by (auto simp: product_simps product_rest_def [abs_def] capsule_block_def [abs_def]
                Let_def plan_env_append py_print_exec [where w = w] simp del: exec.simps)
        qed
      qed
    qed
  qed
  show ?thesis by (simp only: tail_exec) (rule step)
qed

lemma product_upgrade_exec:
  "product_upgrade w host product sat_image cap_image =
     exec_env w (product_plan w host product sat_image cap_image)"
proof -
  have step: "(if product \<notin> set [''satellite'', ''capsule''] then
       thn (py_print (''Product name should be one of '' @ ''satellite, capsule''))
           (sys_exit 1)
     else
     bnd (if \<not> truthy (environ w ''SATELLITE_HOSTNAME'') then
            if \<not> truthy sat_image \<and> \<not> truthy (environ w ''RHEV_SATELLITE'') then
              thn (py_print
                    (''Please provide either Satellite RHEVM template name or '' @
                     ''Satellite HostName to perform upgrade!''))
                  (sys_exit 1)
            else
            if \<not> truthy (environ w ''OS'') then
              thn (py_print ''Please provide OS version as rhel7 or rhel6, And retry !'')
                  (sys_exit 1)
            else
            thn (seqM [
                   delete_rhevm_instance w host (''upgrade_satellite_auto_'' @ fmt (environ w ''OS'')),
                   py_print ''Turning on Satellite Instance ....'',
                   create_rhevm_instance w host (''upgrade_satellite_auto_'' @ fmt (environ w ''OS''))
                     sat_image])
            (thn (seqM [
                    host_pings w host (environ w ''RHEV_SATELLITE''),
                    subscribe w (environ w ''RHEV_SATELLITE'')])
                 (ret (Some (environ w ''OS''), environ w ''RHEV_SATELLITE'')))
          else
            thn (env_set ''satellite_host'' (environ w ''SATELLITE_HOSTNAME''))
                (ret (None, environ w ''SATELLITE_HOSTNAME'')))
     (\<lambda>(version, sat_host).
        exec_env w (product_rest w host product cap_image version sat_host)))
     = exec_env w (product_plan w host product sat_image cap_image)"
    (is ?step)
  proof (cases "product \<notin> set [''satellite'', ''capsule'']")
    case True
    then show ?step
      by (simp add: product_simps product_plan_def [abs_def] exec_env_def
          py_print_exec [where w = w] raise_exec [where w = w] del: exec.simps)
  next
    case False
    note prod = False
    show ?step
    proof (cases "truthy (environ w ''SATELLITE_HOSTNAME'')")
      case True
      with prod show ?step
        by (auto simp: product_simps product_plan_def [abs_def]
            env_set_exec [where w = w] simp del: exec.simps)
    next
      case False
      note nohost = False
      show ?step
      proof (cases "\<not> truthy sat_image \<and> \<not> truthy (environ w ''RHEV_SATELLITE'')")
        case True
        with prod nohost show ?step
          by (auto simp: product_simps product_plan_def [abs_def] exec_env_def
              py_print_exec [where w = w] raise_exec [where w = w] simp del: exec.simps)
      next
        case False
        note spec = False
        show ?step
        proof (cases "truthy (environ w ''OS'')")
          case False
          with prod nohost spec show ?step
            by (auto simp: product_simps product_plan_def [abs_def] exec_env_def
                py_print_exec [where w = w] raise_exec [where w = w] simp del: exec.simps)
        next
          case True
          with prod nohost spec show ?step
            by (auto simp: product_simps product_plan_def [abs_def]
                py_print_exec [where w = w] simp del: exec.simps)
        qed
      qed
    qed
  qed
  show ?thesis
    unfolding product_upgrade_def Let_def
    by (simp only: rest_exec [unfolded Let_def]) (rule step)
qed

subsection \<open>Host resolution\<close>

lemma product_upgrade_at:
  "product_upgrade w host product sat_image cap_image s =
     exec w (product_plan w host product sat_image cap_image (env s)) s"
  by (simp add: product_upgrade_exec exec_env_def)

text \<open>
  Claim C9.  When the capsule is upgraded, the hub is named by \<^verbatim>\<open>SATELLITE_HOSTNAME\<close>
  and the capsule has to be provisioned (no \<^verbatim>\<open>CAPSULE_HOSTNAME\<close>, but an image or
  \<^verbatim>\<open>RHEV_CAPSULE\<close>), \<^verbatim>\<open>product_upgrade\<close> restarts the hub services and then stops with a
  \<^verbatim>\<open>NameError\<close> for \<^verbatim>\<open>version\<close>: the variable is assigned, and \<^verbatim>\<open>OS\<close> checked, only in
  the branch that provisions the hub.  This holds whatever \<^verbatim>\<open>OS\<close> is, so the missing-OS
  message is never the outcome on this path.
\<close>

theorem os_selector_unbound_on_named_hub:
  assumes "truthy (environ w ''SATELLITE_HOSTNAME'')"
    and "\<not> truthy (environ w ''CAPSULE_HOSTNAME'')"
    and "truthy cap_image \<or> truthy (environ w ''RHEV_CAPSULE'')"
    and "\<not> fails w (length (trace s))"
  shows "product_upgrade w host ''capsule'' sat_image cap_image s =
     (Inl (NameError ''version''),
      s\<lparr>trace := trace s @
             [(environ w ''SATELLITE_HOSTNAME'', Run ''katello-service restart'' False)],
        env := (env s)(''satellite_host'' \<mapsto> environ w ''SATELLITE_HOSTNAME'')\<rparr>)"
proof -
  have "product_plan w host ''capsule'' sat_image cap_image (env s) =
      [SetEnv ''satellite_host'' (environ w ''SATELLITE_HOSTNAME''),
       Do (environ w ''SATELLITE_HOSTNAME'') (Run ''katello-service restart'' False),
       Raise (NameError ''version'')]"
    using assms by (auto simp: product_plan_def product_rest_def capsule_block_def)
  then show ?thesis
    using assms(4)
    by (simp add: product_upgrade_at thn_def bnd_def env_set_def issue_def raiseM_def)
qed

theorem os_selector_unbound_on_named_hub_witness:
  "truthy (environ w_named_hub ''SATELLITE_HOSTNAME'') \<and>
   \<not> truthy (environ w_named_hub ''CAPSULE_HOSTNAME'') \<and>
   truthy (environ w_named_hub ''RHEV_CAPSULE'') \<and>
   \<not> fails w_named_hub (length (trace s0)) \<and>
   product_upgrade w_named_hub None ''capsule'' None None s0 =
     (Inl (NameError ''version''),
      \<lparr>trace = [(Some ''sat.example.com'', Run ''katello-service restart'' False)],
       stdout = [],
       env = [''satellite_host'' \<mapsto> Some ''sat.example.com'']\<rparr>)"
proof -
  have a: "truthy (environ w_named_hub ''SATELLITE_HOSTNAME'')"
    "\<not> truthy (environ w_named_hub ''CAPSULE_HOSTNAME'')"
    "truthy None \<or> truthy (environ w_named_hub ''RHEV_CAPSULE'')"
    "\<not> fails w_named_hub (length (trace s0))"
    by (simp_all add: w_named_hub_def)
  from os_selector_unbound_on_named_hub [OF a, of None None] a
  show ?thesis by (simp add: s0_def w_named_hub_def)
qed

lemma product_new:
  "new_events (product_upgrade w host product sat_image cap_image) s =
     issued (fails w) (length (trace s))
       (events (product_plan w host product sat_image cap_image (env s)))"
  by (simp add: product_upgrade_exec new_events_exec_env)

lemma product_result:
  "fst (product_upgrade w host product sat_image cap_image s) =
     (if aborted (fails w) (length (trace s))
           (events (product_plan w host product sat_image cap_image (env s)))
      then Inl FabricAbort
      else final (product_plan w host product sat_image cap_image (env s)))"
  by (simp add: product_upgrade_at exec_result)

lemma capsule_missing_final:
  "\<not> truthy (environ w ''CAPSULE_HOSTNAME'') \<Longrightarrow> \<not> truthy cap_image \<Longrightarrow>
   \<not> truthy (environ w ''RHEV_CAPSULE'') \<Longrightarrow>
   final (product_plan w host ''capsule'' sat_image cap_image e) = Inl (SysExit 1)"
  by (simp add: product_plan_def product_rest_def capsule_block_def plan_simps)

lemma capsule_missing_events:
  "\<not> truthy (environ w ''CAPSULE_HOSTNAME'') \<Longrightarrow> \<not> truthy cap_image \<Longrightarrow>
   \<not> truthy (environ w ''RHEV_CAPSULE'') \<Longrightarrow>
   x \<in> set (events (product_plan w host ''capsule'' sat_image cap_image e)) \<Longrightarrow>
   x \<in> {(host, DeleteRhevmInstance (''upgrade_satellite_auto_'' @ fmt (environ w ''OS''))),
         (host, CreateRhevmInstance (''upgrade_satellite_auto_'' @ fmt (environ w ''OS''))
                  sat_image),
         (host, HostPings (environ w ''RHEV_SATELLITE'')),
         (environ w ''RHEV_SATELLITE'', Subscribe),
         (environ w ''RHEV_SATELLITE'', Run ''katello-service restart'' False),
         (environ w ''SATELLITE_HOSTNAME'', Run ''katello-service restart'' False)}"
  by (auto simp: product_plan_def product_rest_def capsule_block_def plan_simps
      split: if_splits)

text \<open>
  Claim C8.  Hub: with no \<^verbatim>\<open>SATELLITE_HOSTNAME\<close>, no image and no \<^verbatim>\<open>RHEV_SATELLITE\<close>,
  \<^verbatim>\<open>product_upgrade\<close> prints the missing-host message and exits with status 1; nothing
  has been issued.  Subordinate: with no \<^verbatim>\<open>CAPSULE_HOSTNAME\<close>, no image and no
  \<^verbatim>\<open>RHEV_CAPSULE\<close>, a capsule upgrade always ends with status 1, no
  \<^verbatim>\<open>upgrade_capsule_auto_*\<close> instance is ever deleted or created, and when the hub could be
  resolved and nothing failed the exit is \<^verbatim>\<open>sys.exit(1)\<close> right after the capsule
  missing-host message.
\<close>

theorem missing_host_specification:
  "(product \<in> set [''satellite'', ''capsule''] \<and>
    \<not> truthy (environ w ''SATELLITE_HOSTNAME'') \<and> \<not> truthy sat_image \<and>
    \<not> truthy (environ w ''RHEV_SATELLITE'') \<longrightarrow>
      product_upgrade w host product sat_image cap_image s =
        (Inl (SysExit 1),
         s\<lparr>stdout := stdout s @
            [''Please provide either Satellite RHEVM template name or '' @
             ''Satellite HostName to perform upgrade!'']\<rparr>))
 \<and> (\<not> truthy (environ w ''CAPSULE_HOSTNAME'') \<and> \<not> truthy cap_image \<and>
    \<not> truthy (environ w ''RHEV_CAPSULE'') \<longrightarrow>
      (\<exists>e. fst (product_upgrade w host ''capsule'' sat_image cap_image s) = Inl e \<and>
           exit_status e = 1) \<and>
      (h, DeleteRhevmInstance (''upgrade_capsule_auto_'' @ n))
        \<notin> set (new_events (product_upgrade w host ''capsule'' sat_image cap_image) s) \<and>
      (h, CreateRhevmInstance (''upgrade_capsule_auto_'' @ n) img)
        \<notin> set (new_events (product_upgrade w host ''capsule'' sat_image cap_image) s) \<and>
      ((truthy (environ w ''SATELLITE_HOSTNAME'') \<or>
        (truthy sat_image \<or> truthy (environ w ''RHEV_SATELLITE'')) \<and>
        truthy (environ w ''OS'')) \<and>
       (\<forall>k. \<not> fails w k) \<longrightarrow>
         fst (product_upgrade w host ''capsule'' sat_image cap_image s) = Inl (SysExit 1) \<and>
         last (stdout (snd (product_upgrade w host ''capsule'' sat_image cap_image s))) =
           ''Please provide either Capsule RHEVM template name or '' @
           ''Capsule HostName to perform upgrade!''))"
proof (intro conjI impI)
  assume "product \<in> set [''satellite'', ''capsule''] \<and>
    \<not> truthy (environ w ''SATELLITE_HOSTNAME'') \<and> \<not> truthy sat_image \<and>
    \<not> truthy (environ w ''RHEV_SATELLITE'')"
  then have "product_plan w host product sat_image cap_image (env s) =
      [Say (''Please provide either Satellite RHEVM template name or '' @
            ''Satellite HostName to perform upgrade!''), Raise (SysExit 1)]"
    by (auto simp: product_plan_def)
  then show "product_upgrade w host product sat_image cap_image s =
        (Inl (SysExit 1),
         s\<lparr>stdout := stdout s @
            [''Please provide either Satellite RHEVM template name or '' @
             ''Satellite HostName to perform upgrade!'']\<rparr>)"
    by (simp add: product_upgrade_at thn_def bnd_def py_print_def raiseM_def)
next
  assume m: "\<not> truthy (environ w ''CAPSULE_HOSTNAME'') \<and> \<not> truthy cap_image \<and>
    \<not> truthy (environ w ''RHEV_CAPSULE'')"
  then have "final (product_plan w host ''capsule'' sat_image cap_image (env s)) = Inl (SysExit 1)"
    by (simp add: capsule_missing_final)
  then have "fst (product_upgrade w host ''capsule'' sat_image cap_image s) = Inl FabricAbort \<or>
      fst (product_upgrade w host ''capsule'' sat_image cap_image s) = Inl (SysExit 1)"
    by (simp add: product_result)
  then show "\<exists>e. fst (product_upgrade w host ''capsule'' sat_image cap_image s) = Inl e \<and>
           exit_status e = 1" by auto
next
  assume m: "\<not> truthy (environ w ''CAPSULE_HOSTNAME'') \<and> \<not> truthy cap_image \<and>
    \<not> truthy (environ w ''RHEV_CAPSULE'')"
  show "(h, DeleteRhevmInstance (''upgrade_capsule_auto_'' @ n))
        \<notin> set (new_events (product_upgrade w host ''capsule'' sat_image cap_image) s)"
  proof
    assume "(h, DeleteRhevmInstance (''upgrade_capsule_auto_'' @ n))
        \<in> set (new_events (product_upgrade w host ''capsule'' sat_image cap_image) s)"
    then have "(h, DeleteRhevmInstance (''upgrade_capsule_auto_'' @ n))
        \<in> set (events (product_plan w host ''capsule'' sat_image cap_image (env s)))"
      using issued_set by (auto simp: product_new)
    from capsule_missing_events [OF _ _ _ this] m show False by simp
  qed
next
  assume m: "\<not> truthy (environ w ''CAPSULE_HOSTNAME'') \<and> \<not> truthy cap_image \<and>
    \<not> truthy (environ w ''RHEV_CAPSULE'')"
  show "(h, CreateRhevmInstance (''upgrade_capsule_auto_'' @ n) img)
        \<notin> set (new_events (product_upgrade w host ''capsule'' sat_image cap_image) s)"
  proof
    assume "(h, CreateRhevmInstance (''upgrade_capsule_auto_'' @ n) img)
        \<in> set (new_events (product_upgrade w host ''capsule'' sat_image cap_image) s)"
    then have "(h, CreateRhevmInstance (''upgrade_capsule_auto_'' @ n) img)
        \<in> set (events (product_plan w host ''capsule'' sat_image cap_image (env s)))"
      using issued_set by (auto simp: product_new)
    from capsule_missing_events [OF _ _ _ this] m show False by simp
  qed
next
  assume m: "\<not> truthy (environ w ''CAPSULE_HOSTNAME'') \<and> \<not> truthy cap_image \<and>
    \<not> truthy (environ w ''RHEV_CAPSULE'')"
    and r: "(truthy (environ w ''SATELLITE_HOSTNAME'') \<or>
        (truthy sat_image \<or> truthy (environ w ''RHEV_SATELLITE'')) \<and>
        truthy (environ w ''OS'')) \<and> (\<forall>k. \<not> fails w k)"
  then have nf: "\<not> aborted (fails w) k es" for k es by (simp add: not_aborted)
  from m show "fst (product_upgrade w host ''capsule'' sat_image cap_image s) = Inl (SysExit 1)"
    by (simp add: product_result nf capsule_missing_final)
next
  assume m: "\<not> truthy (environ w ''CAPSULE_HOSTNAME'') \<and> \<not> truthy cap_image \<and>
    \<not> truthy (environ w ''RHEV_CAPSULE'')"
    and r: "(truthy (environ w ''SATELLITE_HOSTNAME'') \<or>
        (truthy sat_image \<or> truthy (environ w ''RHEV_SATELLITE'')) \<and>
        truthy (environ w ''OS'')) \<and> (\<forall>k. \<not> fails w k)"
  show "last (stdout (snd (product_upgrade w host ''capsule'' sat_image cap_image s))) =
           ''Please provide either Capsule RHEVM template name or '' @
           ''Capsule HostName to perform upgrade!''"
  proof (cases "truthy (environ w ''SATELLITE_HOSTNAME'')")
    case True
    with m have "product_plan w host ''capsule'' sat_image cap_image (env s) =
      [SetEnv ''satellite_host'' (environ w ''SATELLITE_HOSTNAME''),
       Do (environ w ''SATELLITE_HOSTNAME'') (Run ''katello-service restart'' False),
       Say (''Please provide either Capsule RHEVM template name or '' @
                ''Capsule HostName to perform upgrade!''),
       Raise (SysExit 1)]"
      by (simp add: product_plan_def product_rest_def capsule_block_def)
    then show ?thesis
      using r
      by (simp add: product_upgrade_at thn_def bnd_def env_set_def issue_def raiseM_def
          py_print_def)
  next
    case False
    with m r have "product_plan w host ''capsule'' sat_image cap_image (env s) =
      [Do host (DeleteRhevmInstance (''upgrade_satellite_auto_'' @ fmt (environ w ''OS''))),
       Say ''Turning on Satellite Instance ....'',
       Do host (CreateRhevmInstance (''upgrade_satellite_auto_'' @ fmt (environ w ''OS''))
                      sat_image),
       Do host (HostPings (environ w ''RHEV_SATELLITE'')),
       Do (environ w ''RHEV_SATELLITE'') Subscribe,
       Do (environ w ''RHEV_SATELLITE'') (Run ''katello-service restart'' False),
       Say (''Please provide either Capsule RHEVM template name or '' @
                ''Capsule HostName to perform upgrade!''),
       Raise (SysExit 1)]"
      by (auto simp: product_plan_def product_rest_def capsule_block_def)
    then show ?thesis
      using r
      by (simp add: product_upgrade_at thn_def bnd_def env_set_def issue_def raiseM_def
          py_print_def)
  qed
qed

theorem missing_host_specification_witness:
  "\<not> truthy (environ w_no_capsule ''CAPSULE_HOSTNAME'') \<and> \<not> truthy None \<and>
   \<not> truthy (environ w_no_capsule ''RHEV_CAPSULE'') \<and>
   truthy (environ w_no_capsule ''SATELLITE_HOSTNAME'') \<and>
   (\<forall>k. \<not> fails w_no_capsule k) \<and>
   fst (product_upgrade w_no_capsule None ''capsule'' None None s0) = Inl (SysExit 1) \<and>
   last (stdout (snd (product_upgrade w_no_capsule None ''capsule'' None None s0))) =
     ''Please provide either Capsule RHEVM template name or '' @
     ''Capsule HostName to perform upgrade!''"
proof -
  have a: "\<not> truthy (environ w_no_capsule ''CAPSULE_HOSTNAME'')" "\<not> truthy None"
    "\<not> truthy (environ w_no_capsule ''RHEV_CAPSULE'')"
    "truthy (environ w_no_capsule ''SATELLITE_HOSTNAME'')"
    "\<forall>k. \<not> fails w_no_capsule k"
    by (simp_all add: w_no_capsule_def)
  from missing_host_specification
    [of "''capsule''" w_no_capsule None None None s0 None "[]" None] a
  show ?thesis by blast
qed

subsection \<open>Version validation\<close>







subsection \<open>The certificate exchange and the shared keys\<close>














end
